theory Spec2Isabelle
  imports Complex_Main
begin

section \<open>JavaScript values used by the scripts\<close>

text \<open>
  The two scripts (\<^verbatim>\<open>src/benchmark.js\<close> and \<^verbatim>\<open>src/unnamed/part_000\<close>) are k6 load
  scripts. Strings are modelled as \<^typ>\<open>string\<close>, one \<^typ>\<open>char\<close> per code unit below 256.
  The numbers the scripts compute with (request durations, averages) are finite and are
  modelled as exact rationals; the result of \<^verbatim>\<open>parseInt\<close> is an integer or \<^verbatim>\<open>NaN\<close>.
\<close>

datatype jsval = JUndefined | JNull | JBool bool | JNum rat | JStr string | JObj

text \<open>\<^verbatim>\<open>if (v)\<close>: ToBoolean. A number read from a JSON body is finite, so it is falsy
  exactly when it is zero; objects and arrays are always truthy.\<close>

fun truthy :: "jsval \<Rightarrow> bool" where
  "truthy JUndefined = False"
| "truthy JNull = False"
| "truthy (JBool b) = b"
| "truthy (JNum n) = (n \<noteq> 0)"
| "truthy (JStr s) = (s \<noteq> [])"
| "truthy JObj = True"

text \<open>\<^verbatim>\<open>v !== null\<close>\<close>

definition strict_neq_null :: "jsval \<Rightarrow> bool" where
  "strict_neq_null v = (v \<noteq> JNull)"

datatype jsnum = NaN | Num int

subsection \<open>Numbers in template literals\<close>

definition digit_char :: "nat \<Rightarrow> char" where
  "digit_char d = ''0123456789'' ! d"

fun show_nat :: "nat \<Rightarrow> string" where
  "show_nat n = (if n < 10 then [digit_char n] else show_nat (n div 10) @ [digit_char (n mod 10)])"

declare show_nat.simps [simp del]

definition show_int :: "int \<Rightarrow> string" where
  "show_int i = (if i < 0 then CHR ''-'' # show_nat (nat (- i)) else show_nat (nat i))"

text \<open>\<^verbatim>\<open>`${x}`\<close> for the result of \<^verbatim>\<open>parseInt\<close>.\<close>

fun show_jsnum :: "jsnum \<Rightarrow> string" where
  "show_jsnum NaN = ''NaN''"
| "show_jsnum (Num i) = show_int i"

section \<open>The entity-identity generator\<close>

record book =
  title :: string
  author :: string

text \<open>The book of the measurement phase, from \<^verbatim>\<open>__VU\<close> and \<^verbatim>\<open>__ITER\<close> (both scripts):
  \<^verbatim>\<open>{ title: `Test Book ${__VU}_${__ITER}`, author: `Test Author ${__VU}_${__ITER}` }\<close>\<close>

definition test_book :: "nat \<Rightarrow> nat \<Rightarrow> book" where
  "test_book vu iter =
     \<lparr>title = ''Test Book '' @ show_nat vu @ ''_'' @ show_nat iter,
      author = ''Test Author '' @ show_nat vu @ ''_'' @ show_nat iter\<rparr>"

definition updated_test_book :: "nat \<Rightarrow> nat \<Rightarrow> book" where
  "updated_test_book vu iter =
     \<lparr>title = ''Updated Test Book '' @ show_nat vu @ ''_'' @ show_nat iter,
      author = ''Updated Test Author '' @ show_nat vu @ ''_'' @ show_nat iter\<rparr>"

text \<open>The book of warm-up iteration \<open>i\<close> (both scripts):
  \<^verbatim>\<open>{ title: `Warmup Book ${i}`, author: `Warmup Author ${i}` }\<close>\<close>

definition warmup_book :: "nat \<Rightarrow> book" where
  "warmup_book i =
     \<lparr>title = ''Warmup Book '' @ show_nat i, author = ''Warmup Author '' @ show_nat i\<rparr>"

text \<open>The update of the warm-up phase differs between the scripts.
  \<^verbatim>\<open>benchmark.js\<close>: \<^verbatim>\<open>{ title: `Warmup Update ${i}`, author: `Warmup Update ${i}` }\<close>;
  \<^verbatim>\<open>part_000\<close>: \<^verbatim>\<open>{ title: `Updated Warmup Book ${i}`, author: `Updated Warmup Author ${i}` }\<close>.\<close>

definition warmup_update_benchmark :: "nat \<Rightarrow> book" where
  "warmup_update_benchmark i =
     \<lparr>title = ''Warmup Update '' @ show_nat i, author = ''Warmup Update '' @ show_nat i\<rparr>"

definition warmup_update_part_000 :: "nat \<Rightarrow> book" where
  "warmup_update_part_000 i =
     \<lparr>title = ''Updated Warmup Book '' @ show_nat i,
      author = ''Updated Warmup Author '' @ show_nat i\<rparr>"

section \<open>Configuration\<close>

subsection \<open>String operations of the file parser\<close>

text \<open>White space and line terminators as \<^verbatim>\<open>String.prototype.trim\<close> and \<^verbatim>\<open>parseInt\<close>
  see them, among the code units below 256: TAB, LF, VT, FF, CR, SP and NBSP.\<close>

definition is_space :: "char \<Rightarrow> bool" where
  "is_space c = (c \<in> set [CHR 0x09, CHR 0x0A, CHR 0x0B, CHR 0x0C, CHR 0x0D, CHR 0x20, CHR 0xA0])"

definition trim :: "string \<Rightarrow> string" where
  "trim s = rev (dropWhile is_space (rev (dropWhile is_space s)))"

text \<open>\<^verbatim>\<open>content.split(/\r?\n/)\<close>: a separator is a line feed together with one carriage
  return right before it, when there is one. \<open>cur\<close> is the piece read so far.\<close>

definition strip_cr :: "string \<Rightarrow> string" where
  "strip_cr cur = (if cur \<noteq> [] \<and> last cur = CHR 0x0D then butlast cur else cur)"

fun split_lines_from :: "string \<Rightarrow> string \<Rightarrow> string list" where
  "split_lines_from cur [] = [cur]"
| "split_lines_from cur (c # cs) =
     (if c = CHR 0x0A then strip_cr cur # split_lines_from [] cs
      else split_lines_from (cur @ [c]) cs)"

definition split_lines :: "string \<Rightarrow> string list" where
  "split_lines content = split_lines_from [] content"

text \<open>\<^verbatim>\<open>s.indexOf('=')\<close>, with \<open>None\<close> for \<^verbatim>\<open>-1\<close>.\<close>

definition indexOf :: "char \<Rightarrow> string \<Rightarrow> nat option" where
  "indexOf c s = (if c \<in> set s then Some (length (takeWhile (\<lambda>x. x \<noteq> c) s)) else None)"

definition is_quote :: "char \<Rightarrow> bool" where
  "is_quote c = (c = CHR 0x27 \<or> c = CHR 0x22)"

text \<open>\<^verbatim>\<open>s.replace(/^['"]|['"]$/g, '')\<close>: one quote at the start is removed, then one quote
  at the end of what is left.\<close>

definition strip_quotes :: "string \<Rightarrow> string" where
  "strip_quotes s =
     (let s1 = (if s \<noteq> [] \<and> is_quote (hd s) then tl s else s)
      in if s1 \<noteq> [] \<and> is_quote (last s1) then butlast s1 else s1)"

subsection \<open>\<^verbatim>\<open>loadEnvFile\<close> (benchmark.js, lines 6-31)\<close>

text \<open>The callback of \<^verbatim>\<open>reduce\<close>. The accumulator is a plain object, so the assignment
  \<^verbatim>\<open>acc[key] = value\<close> with the key \<^verbatim>\<open>__proto__\<close> and a string value defines nothing.\<close>

definition env_line :: "(string \<rightharpoonup> string) \<Rightarrow> string \<Rightarrow> (string \<rightharpoonup> string)" where
  "env_line acc line =
     (let trimmed = trim line in
      if trimmed = [] \<or> hd trimmed = CHR ''#'' then acc
      else (case indexOf CHR ''='' trimmed of
              None \<Rightarrow> acc
            | Some idx \<Rightarrow>
                (let key = trim (take idx trimmed);
                     val = strip_quotes (trim (drop (idx + 1) trimmed))
                 in if key \<noteq> [] then (if key = ''__proto__'' then acc else acc(key \<mapsto> val))
                    else acc)))"

text \<open>\<open>open_file\<close> is k6's \<^verbatim>\<open>open\<close>: \<open>None\<close> when it throws (the file is missing or
  cannot be read), which the \<^verbatim>\<open>catch\<close> turns into the empty object.\<close>

definition loadEnvFile :: "(string \<Rightarrow> string option) \<Rightarrow> string \<Rightarrow> (string \<rightharpoonup> string)" where
  "loadEnvFile open_file path =
     (case open_file path of
        None \<Rightarrow> Map.empty
      | Some content \<Rightarrow> foldl env_line Map.empty (split_lines content))"

subsection \<open>\<^verbatim>\<open>parseInt\<close> with one argument\<close>

definition digit_val :: "char \<Rightarrow> nat option" where
  "digit_val c =
     (let n = (of_char c :: nat) in
      if 48 \<le> n \<and> n \<le> 57 then Some (n - 48)
      else if 97 \<le> n \<and> n \<le> 122 then Some (n - 87)
      else if 65 \<le> n \<and> n \<le> 90 then Some (n - 55)
      else None)"

definition is_radix_digit :: "nat \<Rightarrow> char \<Rightarrow> bool" where
  "is_radix_digit R c = (case digit_val c of None \<Rightarrow> False | Some d \<Rightarrow> d < R)"

definition digits_value :: "nat \<Rightarrow> string \<Rightarrow> nat" where
  "digits_value R Z = foldl (\<lambda>acc c. acc * R + (case digit_val c of None \<Rightarrow> 0 | Some d \<Rightarrow> d)) 0 Z"

text \<open>Leading white space is skipped, a sign is read, a prefix \<^verbatim>\<open>0x\<close> or \<^verbatim>\<open>0X\<close> selects
  radix 16, and the longest run of digits is the value; no digit at all gives \<^verbatim>\<open>NaN\<close>.
  The value is kept exact (a double rounds beyond \<open>2 ^ 53\<close>).\<close>

definition parseInt :: "string \<Rightarrow> jsnum" where
  "parseInt s =
     (let S = dropWhile is_space s;
          sign = (if S \<noteq> [] \<and> hd S = CHR ''-'' then - 1 else (1 :: int));
          S1 = (if S \<noteq> [] \<and> (hd S = CHR ''+'' \<or> hd S = CHR ''-'') then tl S else S);
          hex = (take 2 S1 = ''0x'' \<or> take 2 S1 = ''0X'');
          R = (if hex then 16 else 10);
          S2 = (if hex then drop 2 S1 else S1);
          Z = takeWhile (is_radix_digit R) S2
      in if Z = [] then NaN else Num (sign * int (digits_value R Z)))"

text \<open>Comparison of numbers: false as soon as one side is \<^verbatim>\<open>NaN\<close>.\<close>

fun js_lt :: "jsnum \<Rightarrow> jsnum \<Rightarrow> bool" where
  "js_lt (Num a) (Num b) = (a < b)"
| "js_lt _ _ = False"

subsection \<open>The settings\<close>

record settings =
  SERVICE_NAME :: string
  BASE_URL :: string
  VUS :: jsnum
  DURATION :: string
  WARMUP_ITERATIONS :: jsnum
  DATABASE_TYPE :: string

text \<open>\<^verbatim>\<open>a || b\<close> on values that are a string or \<^verbatim>\<open>undefined\<close> (\<open>None\<close>): the left operand
  when it is a non-empty string, the right one otherwise.\<close>

definition js_or :: "string option \<Rightarrow> string option \<Rightarrow> string option" where
  "js_or a b = (case a of None \<Rightarrow> b | Some s \<Rightarrow> if s \<noteq> [] then a else b)"

text \<open>\<^verbatim>\<open>a || 'literal'\<close>\<close>

definition or_default :: "string option \<Rightarrow> string \<Rightarrow> string" where
  "or_default a d = (case a of None \<Rightarrow> d | Some s \<Rightarrow> if s \<noteq> [] then s else d)"

text \<open>benchmark.js, lines 33 and 40-45. \<open>env\<close> is \<^verbatim>\<open>__ENV\<close>.\<close>

definition settings_benchmark ::
  "(string \<rightharpoonup> string) \<Rightarrow> (string \<Rightarrow> string option) \<Rightarrow> settings" where
  "settings_benchmark env open_file =
     (let envFile = loadEnvFile open_file ''.env'' in
      \<lparr>SERVICE_NAME =
         or_default (js_or (env ''SERVICE_NAME'') (envFile ''SERVICE_NAME'')) ''bookcatalog-nd-app'',
       BASE_URL =
         or_default (js_or (env ''BASE_URL'') (envFile ''BASE_URL'')) ''http://localhost:8081/api/books'',
       VUS = parseInt (or_default (js_or (env ''VUS'') (envFile ''VUS'')) ''1''),
       DURATION = or_default (js_or (env ''DURATION'') (envFile ''DURATION'')) ''30s'',
       WARMUP_ITERATIONS =
         parseInt (or_default (js_or (env ''WARMUP_ITERATIONS'') (envFile ''WARMUP_ITERATIONS'')) ''0''),
       DATABASE_TYPE =
         or_default (js_or (env ''DATABASE_TYPE'') (envFile ''DATABASE_TYPE'')) ''sqlite''\<rparr>)"

text \<open>part_000, lines 10-15: the environment only.\<close>

definition settings_part_000 :: "(string \<rightharpoonup> string) \<Rightarrow> settings" where
  "settings_part_000 env =
     \<lparr>SERVICE_NAME = or_default (env ''SERVICE_NAME'') ''bookcatalog-nd-app'',
      BASE_URL = or_default (env ''BASE_URL'') ''http://localhost:8080/api/books'',
      VUS = parseInt (or_default (env ''VUS'') ''1''),
      DURATION = or_default (env ''DURATION'') ''30s'',
      WARMUP_ITERATIONS = parseInt (or_default (env ''WARMUP_ITERATIONS'') ''0''),
      DATABASE_TYPE = or_default (env ''DATABASE_TYPE'') ''sqlite''\<rparr>"

text \<open>The scenario handed to k6 (\<^verbatim>\<open>options.scenarios.test\<close>, both scripts) and the three
  lines benchmark.js logs while it is loaded (lines 47-49).\<close>

record scenario =
  executor :: string
  vus :: jsnum
  duration :: string

definition options_scenario :: "settings \<Rightarrow> scenario" where
  "options_scenario cfg = \<lparr>executor = ''constant-vus'', vus = VUS cfg, duration = DURATION cfg\<rparr>"

definition init_log :: "settings \<Rightarrow> string list" where
  "init_log cfg =
     [''Configured with VUS='' @ show_jsnum (VUS cfg) @ '', DURATION='' @ DURATION cfg
        @ '', WARMUP_ITERATIONS='' @ show_jsnum (WARMUP_ITERATIONS cfg)
        @ '', DATABASE_TYPE='' @ DATABASE_TYPE cfg,
      ''Target Service: '' @ SERVICE_NAME cfg,
      ''Base URL: '' @ BASE_URL cfg]"

section \<open>The target service and the effects of a script\<close>

datatype http_method = POST | GET | PUT | DEL

text \<open>A request as the scripts build it. The URL \<^verbatim>\<open>`${BASE_URL}/${bookId}`\<close> is kept as
  the base and the identifier it was built from; the body \<^verbatim>\<open>JSON.stringify(book)\<close> as the
  book (\<open>None\<close> for the \<^verbatim>\<open>null\<close> body of \<^verbatim>\<open>http.del\<close> and for \<^verbatim>\<open>http.get\<close>).\<close>

record request =
  rq_method :: http_method
  rq_url :: string
  rq_id :: "jsval option"
  rq_body :: "book option"
  rq_headers :: "(string \<times> string) list"

text \<open>What the scripts read of a response: \<^verbatim>\<open>r.status\<close>, \<^verbatim>\<open>r.timings.duration\<close> and
  \<^verbatim>\<open>r.json('id')\<close>. The HTTP client is k6's, not the scripts'; it is taken as the
  specification describes it: every request returns a response with a status code and a
  duration, and reading the identifier of a response returns a value, \<^verbatim>\<open>undefined\<close> when the
  body has no such field.\<close>

record response =
  status :: int
  timings_duration :: rat
  json_id :: jsval

datatype trend = createLatency | getLatency | updateLatency | deleteLatency

text \<open>Everything a script does to the outside, in the order it does it: HTTP requests,
  \<^verbatim>\<open>Trend.add\<close>, the entries of \<^verbatim>\<open>check\<close>, \<^verbatim>\<open>sleep\<close> (in seconds) and \<^verbatim>\<open>console.log\<close>.\<close>

datatype event =
    Http request
  | TrendAdd trend rat
  | Check string bool
  | Sleep rat
  | Log string

text \<open>The service under test is any state machine answering requests; the world is its
  state and the trace of the script's effects so far.\<close>

type_synonym 's server = "'s \<Rightarrow> request \<Rightarrow> response \<times> 's"
type_synonym 's world = "'s \<times> event list"

definition emit :: "event \<Rightarrow> 's world \<Rightarrow> 's world" where
  "emit e w = (fst w, snd w @ [e])"

definition http_send :: "'s server \<Rightarrow> request \<Rightarrow> 's world \<Rightarrow> response \<times> 's world" where
  "http_send server rq w =
     (let (r, s') = server (fst w) rq in (r, (s', snd w @ [Http rq])))"

definition http_post ::
  "'s server \<Rightarrow> string \<Rightarrow> book \<Rightarrow> (string \<times> string) list \<Rightarrow> 's world \<Rightarrow> response \<times> 's world" where
  "http_post server u b hs =
     http_send server \<lparr>rq_method = POST, rq_url = u, rq_id = None, rq_body = Some b, rq_headers = hs\<rparr>"

definition http_get ::
  "'s server \<Rightarrow> string \<Rightarrow> jsval \<Rightarrow> (string \<times> string) list \<Rightarrow> 's world \<Rightarrow> response \<times> 's world" where
  "http_get server u i hs =
     http_send server \<lparr>rq_method = GET, rq_url = u, rq_id = Some i, rq_body = None, rq_headers = hs\<rparr>"

definition http_put ::
  "'s server \<Rightarrow> string \<Rightarrow> jsval \<Rightarrow> book \<Rightarrow> (string \<times> string) list \<Rightarrow> 's world
     \<Rightarrow> response \<times> 's world" where
  "http_put server u i b hs =
     http_send server \<lparr>rq_method = PUT, rq_url = u, rq_id = Some i, rq_body = Some b, rq_headers = hs\<rparr>"

definition http_del ::
  "'s server \<Rightarrow> string \<Rightarrow> jsval \<Rightarrow> (string \<times> string) list \<Rightarrow> 's world \<Rightarrow> response \<times> 's world" where
  "http_del server u i hs =
     http_send server \<lparr>rq_method = DEL, rq_url = u, rq_id = Some i, rq_body = None, rq_headers = hs\<rparr>"

text \<open>Projections of a trace.\<close>

fun event_request :: "event \<Rightarrow> request list" where
  "event_request (Http rq) = [rq]"
| "event_request _ = []"

fun event_sample :: "event \<Rightarrow> (trend \<times> rat) list" where
  "event_sample (TrendAdd t d) = [(t, d)]"
| "event_sample _ = []"

fun event_sleep :: "event \<Rightarrow> rat list" where
  "event_sleep (Sleep d) = [d]"
| "event_sleep _ = []"

fun event_check :: "event \<Rightarrow> (string \<times> bool) list" where
  "event_check (Check n b) = [(n, b)]"
| "event_check _ = []"

definition requests_of :: "event list \<Rightarrow> request list" where
  "requests_of tr = concat (map event_request tr)"

definition samples_of :: "event list \<Rightarrow> (trend \<times> rat) list" where
  "samples_of tr = concat (map event_sample tr)"

definition sleeps_of :: "event list \<Rightarrow> rat list" where
  "sleeps_of tr = concat (map event_sleep tr)"

definition checks_of :: "event list \<Rightarrow> (string \<times> bool) list" where
  "checks_of tr = concat (map event_check tr)"

text \<open>The methods of the requests of a trace, and the trends of its samples.\<close>

definition methods_of :: "event list \<Rightarrow> http_method list" where
  "methods_of tr = map rq_method (requests_of tr)"

definition sampled_trends :: "event list \<Rightarrow> trend list" where
  "sampled_trends tr = map fst (samples_of tr)"

text \<open>The events a run from world \<open>w\<close> to world \<open>w'\<close> added.\<close>

definition new_events :: "'s world \<Rightarrow> 's world \<Rightarrow> event list" where
  "new_events w w' = drop (length (snd w)) (snd w')"

section \<open>The measurement-phase workload unit\<close>

text \<open>The default function of both scripts (benchmark.js lines 104-180, part_000 lines
  107-177). The two bodies are the same statement for statement; they differ in the
  headers only, which are a parameter here.\<close>

definition crud_unit ::
  "'s server \<Rightarrow> settings \<Rightarrow> (string \<times> string) list \<Rightarrow> nat \<Rightarrow> nat \<Rightarrow> 's world \<Rightarrow> 's world" where
  "crud_unit server cfg headers vu iter w0 =
     (let book = test_book vu iter;
          (postResponse, w1) = http_post server (BASE_URL cfg) book headers w0;
          w2 = emit (TrendAdd createLatency (timings_duration postResponse)) w1;
          w3 = emit (Check ''POST status is 200'' (status postResponse = 200)) w2;
          w4 = emit (Check ''POST response has ID'' (strict_neq_null (json_id postResponse))) w3;
          bookId = json_id postResponse
      in if truthy bookId then
           (let w5 = emit (Sleep (1 / 10)) w4;
                (getResponse, w6) = http_get server (BASE_URL cfg) bookId headers w5;
                w7 = emit (TrendAdd getLatency (timings_duration getResponse)) w6;
                w8 = emit (Check ''GET status is 200'' (status getResponse = 200)) w7;
                w9 = emit (Sleep (1 / 10)) w8;
                updatedBook = updated_test_book vu iter;
                (putResponse, w10) = http_put server (BASE_URL cfg) bookId updatedBook headers w9;
                w11 = emit (TrendAdd updateLatency (timings_duration putResponse)) w10;
                w12 = emit (Check ''PUT status is 200'' (status putResponse = 200)) w11;
                w13 = emit (Sleep (1 / 10)) w12;
                (deleteResponse, w14) = http_del server (BASE_URL cfg) bookId headers w13;
                w15 = emit (TrendAdd deleteLatency (timings_duration deleteResponse)) w14;
                w16 = emit (Check ''DELETE status is 200'' (status deleteResponse = 200)) w15
            in emit (Sleep (1 / 10)) w16)
         else w4)"

text \<open>\<^verbatim>\<open>data\<close> is what \<^verbatim>\<open>setup\<close> returned: in benchmark.js the name of the log file.\<close>

record setup_data =
  filename :: string

definition default_benchmark ::
  "'s server \<Rightarrow> settings \<Rightarrow> setup_data \<Rightarrow> nat \<Rightarrow> nat \<Rightarrow> 's world \<Rightarrow> 's world" where
  "default_benchmark server cfg data vu iter =
     crud_unit server cfg
       [(''XDN'', SERVICE_NAME cfg), (''Content-Type'', ''application/json''),
        (''X-Log-Filename'', filename data)] vu iter"

definition default_part_000 ::
  "'s server \<Rightarrow> settings \<Rightarrow> nat \<Rightarrow> nat \<Rightarrow> 's world \<Rightarrow> 's world" where
  "default_part_000 server cfg vu iter =
     crud_unit server cfg
       [(''XDN'', SERVICE_NAME cfg), (''Content-Type'', ''application/json'')] vu iter"

section \<open>The warm-up phase\<close>

subsection \<open>\<^verbatim>\<open>setup\<close> of benchmark.js (lines 65-102)\<close>

definition warmup_body_benchmark ::
  "'s server \<Rightarrow> settings \<Rightarrow> (string \<times> string) list \<Rightarrow> nat \<Rightarrow> 's world \<Rightarrow> 's world" where
  "warmup_body_benchmark server cfg headers i w0 =
     (let book = warmup_book i;
          (postResult, w1) = http_post server (BASE_URL cfg) book headers w0;
          bookId = json_id postResult
      in if truthy bookId then
           (let (getResult, w2) = http_get server (BASE_URL cfg) bookId headers w1;
                updatedBook = warmup_update_benchmark i;
                (putResult, w3) = http_put server (BASE_URL cfg) bookId updatedBook headers w2;
                (deleteResult, w4) = http_del server (BASE_URL cfg) bookId headers w3
            in w4)
         else w1)"

text \<open>\<^verbatim>\<open>for (let i = 0; i < WARMUP_ITERATIONS; i++)\<close>, from the current \<open>i\<close>.\<close>

function warmup_loop_benchmark ::
  "'s server \<Rightarrow> settings \<Rightarrow> (string \<times> string) list \<Rightarrow> nat \<Rightarrow> 's world \<Rightarrow> 's world" where
  "warmup_loop_benchmark server cfg headers i w =
     (if js_lt (Num (int i)) (WARMUP_ITERATIONS cfg)
      then warmup_loop_benchmark server cfg headers (i + 1)
             (warmup_body_benchmark server cfg headers i w)
      else w)"
  by pat_completeness auto
termination
  by (relation "measure (\<lambda>(server, cfg, headers, i, w).
        case WARMUP_ITERATIONS cfg of NaN \<Rightarrow> 0 | Num n \<Rightarrow> nat (n - int i))")
     (auto split: jsnum.splits)

text \<open>\<open>now\<close> is the value of \<^verbatim>\<open>Date.now()\<close>.\<close>

definition setup_benchmark ::
  "'s server \<Rightarrow> settings \<Rightarrow> nat \<Rightarrow> 's world \<Rightarrow> setup_data \<times> 's world" where
  "setup_benchmark server cfg now w0 =
     (let timestamp = now;
          csvFilename =
            ''bookcatalog_results_'' @ DATABASE_TYPE cfg @ ''_'' @ show_nat timestamp @ ''.csv'';
          w1 = emit (Log (CHR 0x0A # ''=== Starting Benchmark ==='')) w0;
          w2 = emit (Log (''Target Log File: '' @ csvFilename)) w1;
          w3 = (if js_lt (Num 0) (WARMUP_ITERATIONS cfg) then
                  (let wa = emit (Log (''Starting warm-up with ''
                              @ show_jsnum (WARMUP_ITERATIONS cfg) @ '' iterations...'')) w2;
                       headers =
                         [(''XDN'', SERVICE_NAME cfg), (''Content-Type'', ''application/json'')];
                       wb = warmup_loop_benchmark server cfg headers 0 wa
                   in emit (Log ''Warm-up complete.'') wb)
                else w2)
      in (\<lparr>filename = csvFilename\<rparr>, w3))"

subsection \<open>\<^verbatim>\<open>setup\<close> of part_000 (lines 31-105)\<close>

definition warmup_body_part_000 ::
  "'s server \<Rightarrow> settings \<Rightarrow> (string \<times> string) list \<Rightarrow> nat \<Rightarrow> 's world \<Rightarrow> 's world" where
  "warmup_body_part_000 server cfg headers i w0 =
     (let w1 = emit (Log (''Warm-up progress: '' @ show_nat i @ ''/''
                       @ show_jsnum (WARMUP_ITERATIONS cfg))) w0;
          book = warmup_book i;
          (postResult, w2) = http_post server (BASE_URL cfg) book headers w1;
          w3 = emit (Check ''Warm-up POST status is 200'' (status postResult = 200)) w2;
          bookId = json_id postResult
      in if truthy bookId then
           (let w4 = emit (Sleep (1 / 10)) w3;
                (getResult, w5) = http_get server (BASE_URL cfg) bookId headers w4;
                w6 = emit (Check ''Warm-up GET status is 200'' (status getResult = 200)) w5;
                w7 = emit (Sleep (1 / 10)) w6;
                updatedBook = warmup_update_part_000 i;
                (putResult, w8) = http_put server (BASE_URL cfg) bookId updatedBook headers w7;
                w9 = emit (Check ''Warm-up PUT status is 200'' (status putResult = 200)) w8;
                w10 = emit (Sleep (1 / 10)) w9;
                (deleteResult, w11) = http_del server (BASE_URL cfg) bookId headers w10;
                w12 = emit (Check ''Warm-up DELETE status is 200'' (status deleteResult = 200)) w11
            in emit (Sleep (1 / 10)) w12)
         else w3)"

function warmup_loop_part_000 ::
  "'s server \<Rightarrow> settings \<Rightarrow> (string \<times> string) list \<Rightarrow> nat \<Rightarrow> 's world \<Rightarrow> 's world" where
  "warmup_loop_part_000 server cfg headers i w =
     (if js_lt (Num (int i)) (WARMUP_ITERATIONS cfg)
      then warmup_loop_part_000 server cfg headers (i + 1)
             (warmup_body_part_000 server cfg headers i w)
      else w)"
  by pat_completeness auto
termination
  by (relation "measure (\<lambda>(server, cfg, headers, i, w).
        case WARMUP_ITERATIONS cfg of NaN \<Rightarrow> 0 | Num n \<Rightarrow> nat (n - int i))")
     (auto split: jsnum.splits)

definition setup_part_000 :: "'s server \<Rightarrow> settings \<Rightarrow> 's world \<Rightarrow> 's world" where
  "setup_part_000 server cfg w0 =
     (let w1 = emit (Log (''Starting warm-up with '' @ show_jsnum (WARMUP_ITERATIONS cfg)
                       @ '' iterations'')) w0;
          headers = [(''XDN'', SERVICE_NAME cfg), (''Content-Type'', ''application/json'')];
          w2 = warmup_loop_part_000 server cfg headers 0 w1
      in emit (Log ''Warm-up complete. Starting actual test.'') w2)"

section \<open>The report\<close>

text \<open>The argument of \<^verbatim>\<open>handleSummary\<close>: \<^verbatim>\<open>data.metrics\<close> maps a metric name to its entry
  when k6 reports that metric; the entry may have \<^verbatim>\<open>values\<close>, and the values of a
  trend have the number \<^verbatim>\<open>avg\<close>.\<close>

record trend_values =
  avg :: rat

record metric =
  metric_values :: "trend_values option"

record summary_data =
  metrics :: "string \<rightharpoonup> metric"

text \<open>\<^verbatim>\<open>data.metrics.m && data.metrics.m.values\<close>, and \<^verbatim>\<open>.avg\<close> of it when it is truthy.\<close>

definition metric_avg :: "summary_data \<Rightarrow> string \<Rightarrow> rat option" where
  "metric_avg data m =
     (case metrics data m of
        None \<Rightarrow> None
      | Some e \<Rightarrow> (case metric_values e of None \<Rightarrow> None | Some v \<Rightarrow> Some (avg v)))"

text \<open>\<^verbatim>\<open>x.toFixed(2)\<close>: the sign, then the integer \<open>n\<close> nearest to \<open>100 * |x|\<close> (the larger
  one of two), written with a point before its last two digits. From \<open>10 ^ 21\<close> on
  JavaScript prints the number in its exponent form instead, which is outside this model:
  the function is \<^verbatim>\<open>toFixed(2)\<close> for \<open>|x| < 10 ^ 21\<close>.\<close>

definition toFixed2 :: "rat \<Rightarrow> string" where
  "toFixed2 x =
     (let n = nat \<lfloor>\<bar>x\<bar> * 100 + 1 / 2\<rfloor>;
          m = show_nat (n div 100) @ ''.'' @ [digit_char (n mod 100 div 10), digit_char (n mod 10)]
      in if x < 0 then CHR ''-'' # m else m)"

subsection \<open>\<^verbatim>\<open>handleSummary\<close> of part_000 (lines 179-227)\<close>

text \<open>The four averages, each with the lines its \<^verbatim>\<open>if\<close> statement logs.\<close>

definition avgGetLatency :: "summary_data \<Rightarrow> rat \<times> string list" where
  "avgGetLatency data =
     (case metric_avg data ''get_book_latency'' of
        Some a \<Rightarrow> (a, [])
      | None \<Rightarrow> (0, [''Warning: GET latency metrics not available'']))"

definition avgCreateLatency :: "summary_data \<Rightarrow> rat \<times> string list" where
  "avgCreateLatency data =
     (case metric_avg data ''create_book_latency'' of
        Some a \<Rightarrow> (a, [])
      | None \<Rightarrow> (0, [''Warning: CREATE latency metrics not available'']))"

definition avgUpdateLatency :: "summary_data \<Rightarrow> rat \<times> string list" where
  "avgUpdateLatency data =
     (case metric_avg data ''update_book_latency'' of
        Some a \<Rightarrow> (a, [])
      | None \<Rightarrow> (0, [''Warning: UPDATE latency metrics not available'']))"

definition avgDeleteLatency :: "summary_data \<Rightarrow> rat \<times> string list" where
  "avgDeleteLatency data =
     (case metric_avg data ''delete_book_latency'' of
        Some a \<Rightarrow> (a, [])
      | None \<Rightarrow> (0, [''Warning: DELETE latency metrics not available'']))"

definition overallLatency :: "summary_data \<Rightarrow> rat" where
  "overallLatency data =
     (fst (avgGetLatency data) + fst (avgCreateLatency data) + fst (avgUpdateLatency data)
        + fst (avgDeleteLatency data)) / 4"

definition csvHeader :: string where
  "csvHeader = ''get_latency,create_latency,update_latency,delete_latency,overall_latency'' @ [CHR 0x0A]"

definition csvRow :: "summary_data \<Rightarrow> string" where
  "csvRow data =
     toFixed2 (fst (avgGetLatency data)) @ '','' @ toFixed2 (fst (avgCreateLatency data)) @ '',''
       @ toFixed2 (fst (avgUpdateLatency data)) @ '','' @ toFixed2 (fst (avgDeleteLatency data))
       @ '','' @ toFixed2 (overallLatency data) @ [CHR 0x0A]"

text \<open>The result of \<^verbatim>\<open>handleSummary\<close>: the lines logged and the object returned, as its
  entries in order.\<close>

record summary_result =
  console :: "string list"
  outputs :: "(string \<times> string) list"

definition handleSummary_part_000 :: "settings \<Rightarrow> nat \<Rightarrow> summary_data \<Rightarrow> summary_result" where
  "handleSummary_part_000 cfg now data =
     (let filename = ''bookcatalog_results_'' @ DATABASE_TYPE cfg @ ''_'' @ show_nat now @ ''.csv''
      in \<lparr>console =
            snd (avgGetLatency data) @ snd (avgCreateLatency data) @ snd (avgUpdateLatency data)
              @ snd (avgDeleteLatency data)
              @ [CHR 0x0A # ''=== BookCatalog Benchmark Results ==='',
                 ''GET avg: '' @ toFixed2 (fst (avgGetLatency data)) @ ''ms'',
                 ''CREATE avg: '' @ toFixed2 (fst (avgCreateLatency data)) @ ''ms'',
                 ''UPDATE avg: '' @ toFixed2 (fst (avgUpdateLatency data)) @ ''ms'',
                 ''DELETE avg: '' @ toFixed2 (fst (avgDeleteLatency data)) @ ''ms'',
                 ''Overall: '' @ toFixed2 (overallLatency data) @ ''ms''],
          outputs =
            [(''stdout'', ''BookCatalog benchmark complete''),
             (filename, csvHeader @ csvRow data)]\<rparr>)"

subsection \<open>\<^verbatim>\<open>handleSummary\<close> of benchmark.js (lines 182-189)\<close>

text \<open>\<open>textSummary\<close> is the function of that name imported from the k6 summary library,
  with the options the script passes.\<close>

definition handleSummary_benchmark ::
  "(summary_data \<Rightarrow> string) \<Rightarrow> settings \<Rightarrow> summary_data \<Rightarrow> summary_result" where
  "handleSummary_benchmark textSummary cfg data =
     \<lparr>console =
        [CHR 0x0A # ''=== BookCatalog Benchmark Summary ==='',
         ''VUs: '' @ show_jsnum (VUS cfg) @ '', Duration: '' @ DURATION cfg],
      outputs = [(''stdout'', textSummary data)]\<rparr>"

text \<open>k6 writes the entries \<^verbatim>\<open>stdout\<close> and \<^verbatim>\<open>stderr\<close> of the returned object to the
  terminal and every other entry to the file its key names.\<close>

definition files_written :: "summary_result \<Rightarrow> (string \<times> string) list" where
  "files_written r = filter (\<lambda>(k, v). k \<noteq> ''stdout'' \<and> k \<noteq> ''stderr'') (outputs r)"

section \<open>Notions used in the statements\<close>

text \<open>Decimal digits; the strings the two phases generate; the create request of a
  workload unit and the service's answer to it; two services to run the scripts against.\<close>

definition is_digit :: "char \<Rightarrow> bool" where
  "is_digit c = (c \<in> set ''0123456789'')"

text \<open>Every title and author a measurement-phase unit sends, and every one a warm-up
  iteration of either script sends.\<close>

definition test_strings :: "nat \<Rightarrow> nat \<Rightarrow> string list" where
  "test_strings vu iter =
     [title (test_book vu iter), author (test_book vu iter),
      title (updated_test_book vu iter), author (updated_test_book vu iter)]"

definition warmup_strings :: "nat \<Rightarrow> string list" where
  "warmup_strings i =
     [title (warmup_book i), author (warmup_book i),
      title (warmup_update_benchmark i), author (warmup_update_benchmark i),
      title (warmup_update_part_000 i), author (warmup_update_part_000 i)]"

definition create_request :: "settings \<Rightarrow> (string \<times> string) list \<Rightarrow> nat \<Rightarrow> nat \<Rightarrow> request" where
  "create_request cfg headers vu iter =
     \<lparr>rq_method = POST, rq_url = BASE_URL cfg, rq_id = None,
      rq_body = Some (test_book vu iter), rq_headers = headers\<rparr>"

definition create_response ::
  "'s server \<Rightarrow> settings \<Rightarrow> (string \<times> string) list \<Rightarrow> nat \<Rightarrow> nat \<Rightarrow> 's world \<Rightarrow> response" where
  "create_response server cfg headers vu iter w =
     fst (server (fst w) (create_request cfg headers vu iter))"

definition headers_benchmark :: "settings \<Rightarrow> setup_data \<Rightarrow> (string \<times> string) list" where
  "headers_benchmark cfg data =
     [(''XDN'', SERVICE_NAME cfg), (''Content-Type'', ''application/json''),
      (''X-Log-Filename'', filename data)]"

definition headers_part_000 :: "settings \<Rightarrow> (string \<times> string) list" where
  "headers_part_000 cfg = [(''XDN'', SERVICE_NAME cfg), (''Content-Type'', ''application/json'')]"

text \<open>A service that answers 200 with the latencies 10, 20, 30 and 40 ms and numbers
  the books it creates from 1; and a service that gives every request the same answer.\<close>

definition scenario_server :: "nat server" where
  "scenario_server n rq =
     (case rq_method rq of
        POST \<Rightarrow> (\<lparr>status = 200, timings_duration = 10, json_id = JNum (of_nat (n + 1))\<rparr>, n + 1)
      | GET \<Rightarrow> (\<lparr>status = 200, timings_duration = 20, json_id = JNum (of_nat n)\<rparr>, n)
      | PUT \<Rightarrow> (\<lparr>status = 200, timings_duration = 30, json_id = JNum (of_nat n)\<rparr>, n)
      | DEL \<Rightarrow> (\<lparr>status = 200, timings_duration = 40, json_id = JUndefined\<rparr>, n))"

definition constant_server :: "response \<Rightarrow> unit server" where
  "constant_server r u rq = (r, ())"

text \<open>The requests and the pauses of a trace, in the order they happen.\<close>

fun event_pacing :: "event \<Rightarrow> (http_method + rat) list" where
  "event_pacing (Http rq) = [Inl (rq_method rq)]"
| "event_pacing (Sleep d) = [Inr d]"
| "event_pacing _ = []"

definition pacing_of :: "event list \<Rightarrow> (http_method + rat) list" where
  "pacing_of tr = concat (map event_pacing tr)"

text \<open>What a run of warm-up iterations may add to a trace: \<open>k\<close> POST requests, at most
  \<open>k\<close> of each other method, no sample.\<close>

definition warmup_events :: "nat \<Rightarrow> event list \<Rightarrow> bool" where
  "warmup_events k ev \<longleftrightarrow>
     count_list (methods_of ev) POST = k \<and> count_list (methods_of ev) GET \<le> k \<and>
     count_list (methods_of ev) PUT \<le> k \<and> count_list (methods_of ev) DEL \<le> k \<and>
     samples_of ev = []"

text \<open>The create request of warm-up iteration \<open>i\<close>.\<close>

definition warmup_request :: "settings \<Rightarrow> (string \<times> string) list \<Rightarrow> nat \<Rightarrow> request" where
  "warmup_request cfg headers i =
     \<lparr>rq_method = POST, rq_url = BASE_URL cfg, rq_id = None,
      rq_body = Some (warmup_book i), rq_headers = headers\<rparr>"

text \<open>A number written with exactly two decimal places: an optional minus sign, at least one
  digit, a point, two digits.\<close>

definition two_decimals :: "string \<Rightarrow> bool" where
  "two_decimals s =
     (let t = (if s \<noteq> [] \<and> hd s = CHR ''-'' then tl s else s); n = length t
      in 4 \<le> n \<and> t ! (n - 3) = CHR ''.'' \<and> list_all is_digit (take (n - 3) t)
         \<and> list_all is_digit (drop (n - 2) t))"

text \<open>The summary of the scenario of the specification: averages of 10 ms for create, 20 ms
  for read, 30 ms for update and 40 ms for delete; and a summary in which k6 reports no
  metric at all.\<close>

definition scenario_data :: summary_data where
  "scenario_data =
     \<lparr>metrics =
        [''create_book_latency'' \<mapsto> \<lparr>metric_values = Some \<lparr>avg = 10\<rparr>\<rparr>,
         ''get_book_latency'' \<mapsto> \<lparr>metric_values = Some \<lparr>avg = 20\<rparr>\<rparr>,
         ''update_book_latency'' \<mapsto> \<lparr>metric_values = Some \<lparr>avg = 30\<rparr>\<rparr>,
         ''delete_book_latency'' \<mapsto> \<lparr>metric_values = Some \<lparr>avg = 40\<rparr>\<rparr>]\<rparr>"

definition empty_data :: summary_data where
  "empty_data = \<lparr>metrics = Map.empty\<rparr>"

definition no_env :: "string \<rightharpoonup> string" where
  "no_env = Map.empty"

definition no_file :: "string \<Rightarrow> string option" where
  "no_file path = None"

definition plain_summary :: "summary_data \<Rightarrow> string" where
  "plain_summary data = ''summary''"

text \<open>A value that counts for \<^verbatim>\<open>||\<close>: a string that is there and is not empty.\<close>

definition nonempty_value :: "string option \<Rightarrow> string option" where
  "nonempty_value a = (case a of None \<Rightarrow> None | Some v \<Rightarrow> if v \<noteq> [] then Some v else None)"

text \<open>The resolution order in the words of the specification: the environment variable if it
  is present and non-empty, otherwise the value of the file if the file defines the key,
  otherwise the default.\<close>

definition resolved_by_spec ::
  "(string \<rightharpoonup> string) \<Rightarrow> (string \<rightharpoonup> string) \<Rightarrow> string \<Rightarrow> string \<Rightarrow> string" where
  "resolved_by_spec env file k d =
     (case nonempty_value (env k) of
        Some v \<Rightarrow> v
      | None \<Rightarrow> (case file k of Some v \<Rightarrow> v | None \<Rightarrow> d))"

text \<open>The same order, with the value of the file taken only when it is non-empty too.\<close>

definition resolved_nonempty ::
  "(string \<rightharpoonup> string) \<Rightarrow> (string \<rightharpoonup> string) \<Rightarrow> string \<Rightarrow> string \<Rightarrow> string" where
  "resolved_nonempty env file k d =
     (case nonempty_value (env k) of
        Some v \<Rightarrow> v
      | None \<Rightarrow> (case nonempty_value (file k) of Some v \<Rightarrow> v | None \<Rightarrow> d))"

text \<open>A blank line or a comment line of the settings file.\<close>

definition ignored_line :: "string \<Rightarrow> bool" where
  "ignored_line l = (trim l = [] \<or> hd (trim l) = CHR ''#'')"

text \<open>A string that does not start with a decimal integer: after white space and one sign
  there is nothing, or a character that is not a decimal digit.\<close>

definition non_numeric :: "string \<Rightarrow> bool" where
  "non_numeric s =
     (let S = dropWhile is_space s;
          S1 = (if S \<noteq> [] \<and> (hd S = CHR ''+'' \<or> hd S = CHR ''-'') then tl S else S)
      in S1 = [] \<or> \<not> is_radix_digit 10 (hd S1))"

text \<open>Settings files and environments to run the resolution on.\<close>

definition blank_name_file :: "string \<Rightarrow> string option" where
  "blank_name_file path = (if path = ''.env'' then Some ''SERVICE_NAME='' else None)"

definition sample_file :: "string \<Rightarrow> string option" where
  "sample_file path =
     (if path = ''.env''
      then Some (''# settings'' @ [CHR 0x0D, CHR 0x0A, CHR 0x0A] @ ''VUS=8'' @ [CHR 0x0A]
                 @ ''DURATION = '' @ [CHR 0x22] @ ''10s'' @ [CHR 0x22, CHR 0x0A]
                 @ ''DATABASE_TYPE='' @ [CHR 0x27] @ ''postgres'' @ [CHR 0x27, CHR 0x0A])
      else None)"

definition sample_env :: "string \<rightharpoonup> string" where
  "sample_env = [''VUS'' \<mapsto> ''4'', ''DURATION'' \<mapsto> '''']"

definition bad_vus_env :: "string \<rightharpoonup> string" where
  "bad_vus_env = [''VUS'' \<mapsto> ''abc'', ''WARMUP_ITERATIONS'' \<mapsto> ''many'']"


section \<open>Decimal rendering is injective\<close>

lemma digit_char_is_digit: "d < 10 \<Longrightarrow> is_digit (digit_char d)"
proof -
  assume "d < 10"
  then have "d \<in> {0,1,2,3,4,5,6,7,8,9}" by auto
  then show ?thesis by (auto simp: is_digit_def digit_char_def)
qed

lemma digit_char_inj: "a < 10 \<Longrightarrow> b < 10 \<Longrightarrow> digit_char a = digit_char b \<Longrightarrow> a = b"
proof -
  assume "a < 10" "b < 10" and e: "digit_char a = digit_char b"
  then have "a \<in> {0,1,2,3,4,5,6,7,8,9}" "b \<in> {0,1,2,3,4,5,6,7,8,9}" by auto
  with e show ?thesis by (auto simp: digit_char_def)
qed

lemma show_nat_digits: "\<forall>c \<in> set (show_nat n). is_digit c"
proof (induction n rule: show_nat.induct)
  case (1 n)
  show ?case
  proof (cases "n < 10")
    case True
    then show ?thesis by (subst show_nat.simps) (simp add: digit_char_is_digit)
  next
    case False
    with 1 show ?thesis by (subst show_nat.simps) (simp add: digit_char_is_digit)
  qed
qed

lemma show_nat_nonempty: "show_nat n \<noteq> []"
  by (subst show_nat.simps) simp

lemma show_nat_inj: "show_nat a = show_nat b \<Longrightarrow> a = b"
proof (induction a arbitrary: b rule: show_nat.induct)
  case (1 n)
  show ?case
  proof (cases "n < 10")
    case True
    then have l: "show_nat n = [digit_char n]" by (subst show_nat.simps) simp
    show ?thesis
    proof (cases "b < 10")
      case True
      then have "show_nat b = [digit_char b]" by (subst show_nat.simps) simp
      with l 1(2) True \<open>n < 10\<close> show ?thesis by (simp add: digit_char_inj)
    next
      case False
      then have "show_nat b = show_nat (b div 10) @ [digit_char (b mod 10)]" by (subst show_nat.simps) simp
      with l 1(2) show ?thesis by (simp add: show_nat_nonempty)
    qed
  next
    case False
    then have l: "show_nat n = show_nat (n div 10) @ [digit_char (n mod 10)]" by (subst show_nat.simps) simp
    show ?thesis
    proof (cases "b < 10")
      case True
      then have "show_nat b = [digit_char b]" by (subst show_nat.simps) simp
      with l 1(2) have "show_nat (n div 10) = []" by simp
      then show ?thesis by (simp add: show_nat_nonempty)
    next
      case b: False
      then have "show_nat b = show_nat (b div 10) @ [digit_char (b mod 10)]" by (subst show_nat.simps) simp
      with l 1(2) have e: "show_nat (n div 10) = show_nat (b div 10)" and d: "digit_char (n mod 10) = digit_char (b mod 10)" by simp_all
      from 1(1)[OF False e] have "n div 10 = b div 10" .
      moreover from d have "n mod 10 = b mod 10" by (simp add: digit_char_inj)
      ultimately show ?thesis by (metis div_mult_mod_eq)
    qed
  qed
qed

lemma sep_split:
  assumes "xs @ c # ys = xs' @ c # ys'" "c \<notin> set xs" "c \<notin> set xs'"
  shows "xs = xs' \<and> ys = ys'"
proof -
  have "takeWhile (\<lambda>x. x \<noteq> c) (xs @ c # ys) = xs" using assms(2) by (induction xs) auto
  moreover have "takeWhile (\<lambda>x. x \<noteq> c) (xs' @ c # ys') = xs'" using assms(3) by (induction xs') auto
  ultimately have "xs = xs'" using assms(1) by simp
  with assms(1) show ?thesis by simp
qed

lemma underscore_not_digit: "CHR ''_'' \<notin> set (show_nat n)"
  using show_nat_digits[of n] by (auto simp: is_digit_def)

lemma pair_inj:
  assumes "show_nat a @ CHR ''_'' # show_nat b = show_nat a' @ CHR ''_'' # show_nat b'"
  shows "a = a' \<and> b = b'"
proof -
  from sep_split [OF assms underscore_not_digit underscore_not_digit]
  have "show_nat a = show_nat a'" and "show_nat b = show_nat b'" by blast+
  then show ?thesis by (blast dest: show_nat_inj)
qed

section \<open>Entity identities\<close>

text \<open>
  C8. The identity generator is injective: two distinct pairs of worker index and iteration
  counter give distinct titles, distinct authors and distinct books, and two distinct warm-up
  indices give distinct warm-up titles and authors. Moreover no string a warm-up iteration
  sends (title or author, create or update, in either script) is a string a
  measurement-phase unit sends.
\<close>

theorem C8_identity_generator_injective:
  "((vu, iter) \<noteq> (vu', iter') \<longrightarrow>
      title (test_book vu iter) \<noteq> title (test_book vu' iter') \<and>
      author (test_book vu iter) \<noteq> author (test_book vu' iter') \<and>
      test_book vu iter \<noteq> test_book vu' iter') \<and>
   (i \<noteq> i' \<longrightarrow>
      title (warmup_book i) \<noteq> title (warmup_book i') \<and>
      author (warmup_book i) \<noteq> author (warmup_book i')) \<and>
   set (warmup_strings j) \<inter> set (test_strings vu'' iter'') = {}"
proof -
  have a: "title (test_book vu iter) = title (test_book vu' iter') \<Longrightarrow> (vu, iter) = (vu', iter')"
    using pair_inj [of vu iter vu' iter'] by (simp add: test_book_def)
  have b: "author (test_book vu iter) = author (test_book vu' iter') \<Longrightarrow> (vu, iter) = (vu', iter')"
    using pair_inj [of vu iter vu' iter'] by (simp add: test_book_def)
  have c: "title (warmup_book i) = title (warmup_book i') \<Longrightarrow> i = i'"
    using show_nat_inj [of i i'] by (simp add: warmup_book_def)
  have d: "author (warmup_book i) = author (warmup_book i') \<Longrightarrow> i = i'"
    using show_nat_inj [of i i'] by (simp add: warmup_book_def)
  have e: "set (warmup_strings j) \<inter> set (test_strings vu'' iter'') = {}"
    by (simp add: warmup_strings_def test_strings_def warmup_book_def test_book_def
        updated_test_book_def warmup_update_benchmark_def warmup_update_part_000_def)
  have f: "title (test_book vu iter) \<noteq> title (test_book vu' iter')
      \<and> author (test_book vu iter) \<noteq> author (test_book vu' iter')
      \<and> test_book vu iter \<noteq> test_book vu' iter'" if "(vu, iter) \<noteq> (vu', iter')"
    using that a b by metis
  have g: "title (warmup_book i) \<noteq> title (warmup_book i')
      \<and> author (warmup_book i) \<noteq> author (warmup_book i')" if "i \<noteq> i'"
    using that c d by metis
  show ?thesis
    by (intro conjI impI f g e) assumption+
qed

theorem C8_identity_generator_injective_witness:
  "title (test_book 1 12) = ''Test Book 1_12'' \<and> title (test_book 11 2) = ''Test Book 11_2'' \<and>
   title (test_book 1 12) \<noteq> title (test_book 11 2) \<and>
   author (test_book 1 12) \<noteq> author (test_book 11 2) \<and>
   title (warmup_book 0) \<noteq> title (warmup_book 1)"
proof -
  have "title (test_book 1 12) = ''Test Book 1_12''" "title (test_book 11 2) = ''Test Book 11_2''"
    by (simp_all add: test_book_def show_nat.simps digit_char_def)
  then show ?thesis
  using C8_identity_generator_injective [of 1 12 11 2 0 1] by simp
qed


section \<open>The workload unit: requests, samples, pauses\<close>

lemmas unit_defs = crud_unit_def http_post_def http_get_def http_put_def http_del_def
  http_send_def emit_def new_events_def create_response_def create_request_def

lemmas proj_defs = methods_of_def requests_of_def sampled_trends_def samples_of_def
  sleeps_of_def checks_of_def pacing_of_def

lemma crud_unit_extends:
  "snd (crud_unit server cfg hs vu iter w) = snd w @ new_events w (crud_unit server cfg hs vu iter w)"
  by (simp add: unit_defs Let_def case_prod_beta)

lemma crud_unit_methods:
  "methods_of (new_events w (crud_unit server cfg hs vu iter w)) =
     (if truthy (json_id (create_response server cfg hs vu iter w)) then [POST, GET, PUT, DEL] else [POST])"
  by (simp add: unit_defs proj_defs Let_def case_prod_beta)

lemma crud_unit_trends:
  "sampled_trends (new_events w (crud_unit server cfg hs vu iter w)) =
     (if truthy (json_id (create_response server cfg hs vu iter w))
      then [createLatency, getLatency, updateLatency, deleteLatency] else [createLatency])"
  by (simp add: unit_defs proj_defs Let_def case_prod_beta)

lemma crud_unit_first_sample:
  "take 1 (samples_of (new_events w (crud_unit server cfg hs vu iter w))) =
     [(createLatency, timings_duration (create_response server cfg hs vu iter w))]"
  by (simp add: unit_defs proj_defs Let_def case_prod_beta)

lemma crud_unit_pacing:
  "pacing_of (new_events w (crud_unit server cfg hs vu iter w)) =
     (if truthy (json_id (create_response server cfg hs vu iter w))
      then [Inl POST, Inr (1 / 10), Inl GET, Inr (1 / 10), Inl PUT, Inr (1 / 10), Inl DEL, Inr (1 / 10)]
      else [Inl POST])"
  by (simp add: unit_defs proj_defs Let_def case_prod_beta)

lemma crud_unit_id_check:
  "(''POST response has ID'', strict_neq_null (json_id (create_response server cfg hs vu iter w)))
     \<in> set (checks_of (new_events w (crud_unit server cfg hs vu iter w)))"
  by (simp add: unit_defs proj_defs Let_def case_prod_beta)

lemma crud_unit_skipped:
  "\<not> truthy (json_id (create_response server cfg hs vu iter w)) \<Longrightarrow>
   new_events w (crud_unit server cfg hs vu iter w) =
     [Http (create_request cfg hs vu iter),
      TrendAdd createLatency (timings_duration (create_response server cfg hs vu iter w)),
      Check ''POST status is 200'' (status (create_response server cfg hs vu iter w) = 200),
      Check ''POST response has ID'' (strict_neq_null (json_id (create_response server cfg hs vu iter w)))]"
  by (simp add: unit_defs proj_defs Let_def case_prod_beta)


lemma crud_unit_checks:
  "take 2 (checks_of (new_events w (crud_unit server cfg hs vu iter w))) =
     [(''POST status is 200'', status (create_response server cfg hs vu iter w) = 200),
      (''POST response has ID'', json_id (create_response server cfg hs vu iter w) \<noteq> JNull)]"
  by (simp add: unit_defs proj_defs strict_neq_null_def Let_def case_prod_beta)

lemma crud_unit_sleeps:
  "sleeps_of (new_events w (crud_unit server cfg hs vu iter w)) =
     (if truthy (json_id (create_response server cfg hs vu iter w))
      then [1 / 10, 1 / 10, 1 / 10, 1 / 10] else [])"
  by (simp add: unit_defs proj_defs Let_def case_prod_beta)

lemma script_cases:
  assumes "(unit = default_benchmark server cfg data vu iter \<and> hs = headers_benchmark cfg data)
         \<or> (unit = default_part_000 server cfg vu iter \<and> hs = headers_part_000 cfg)"
  shows "unit = crud_unit server cfg hs vu iter"
  using assms
  by (auto simp: default_benchmark_def default_part_000_def headers_benchmark_def headers_part_000_def)

text \<open>
  C1. One execution of the measurement-phase workload unit, in either script, only appends to
  the trace. When the identifier of the create response is usable (truthy, which is what the
  script tests), the unit issues exactly the four requests POST, GET, PUT, DELETE in this
  order and adds exactly four samples, one to each trend (create, get, update, delete).
  Otherwise it issues the POST alone and adds the create sample alone. In both cases the
  first sample is the create sample with the duration of the create response, whatever the
  outcome of the create request.
\<close>

theorem C1_unit_requests_and_samples:
  fixes server :: "'s server" and w :: "'s world"
  assumes "(unit = default_benchmark server cfg data vu iter \<and> hs = headers_benchmark cfg data)
         \<or> (unit = default_part_000 server cfg vu iter \<and> hs = headers_part_000 cfg)"
  shows "snd (unit w) = snd w @ new_events w (unit w)
       \<and> methods_of (new_events w (unit w)) =
           (if truthy (json_id (create_response server cfg hs vu iter w))
            then [POST, GET, PUT, DEL] else [POST])
       \<and> sampled_trends (new_events w (unit w)) =
           (if truthy (json_id (create_response server cfg hs vu iter w))
            then [createLatency, getLatency, updateLatency, deleteLatency] else [createLatency])
       \<and> take 1 (samples_of (new_events w (unit w))) =
           [(createLatency, timings_duration (create_response server cfg hs vu iter w))]"
proof -
  have u: "unit = crud_unit server cfg hs vu iter" by (rule script_cases [OF assms])
  show ?thesis
    unfolding u
    by (intro conjI crud_unit_extends crud_unit_methods crud_unit_trends crud_unit_first_sample)
qed

theorem C1_unit_requests_and_samples_witness:
  "methods_of (new_events (0, [])
      (default_benchmark scenario_server (settings_benchmark no_env no_file)
         \<lparr>filename = ''f.csv''\<rparr> 1 0 (0, []))) = [POST, GET, PUT, DEL]
   \<and> samples_of (new_events (0, [])
      (default_benchmark scenario_server (settings_benchmark no_env no_file)
         \<lparr>filename = ''f.csv''\<rparr> 1 0 (0, []))) =
       [(createLatency, 10), (getLatency, 20), (updateLatency, 30), (deleteLatency, 40)]
   \<and> methods_of (new_events ((), [])
      (default_part_000 (constant_server \<lparr>status = 500, timings_duration = 7, json_id = JUndefined\<rparr>)
         (settings_part_000 no_env) 1 0 ((), []))) = [POST]
   \<and> samples_of (new_events ((), [])
      (default_part_000 (constant_server \<lparr>status = 500, timings_duration = 7, json_id = JUndefined\<rparr>)
         (settings_part_000 no_env) 1 0 ((), []))) = [(createLatency, 7)]"
proof -
  have a: "samples_of (new_events (0, [])
      (default_benchmark scenario_server (settings_benchmark no_env no_file)
         \<lparr>filename = ''f.csv''\<rparr> 1 0 (0, []))) =
       [(createLatency, 10), (getLatency, 20), (updateLatency, 30), (deleteLatency, 40)]"
    by (simp add: default_benchmark_def unit_defs proj_defs scenario_server_def Let_def case_prod_beta)
  have b: "samples_of (new_events ((), [])
      (default_part_000 (constant_server \<lparr>status = 500, timings_duration = 7, json_id = JUndefined\<rparr>)
         (settings_part_000 no_env) 1 0 ((), []))) = [(createLatency, 7)]"
    by (simp add: default_part_000_def unit_defs proj_defs constant_server_def Let_def case_prod_beta)
  show ?thesis
    using a b
      C1_unit_requests_and_samples [of
        "default_benchmark scenario_server (settings_benchmark no_env no_file) \<lparr>filename = ''f.csv''\<rparr> 1 0"
        scenario_server "settings_benchmark no_env no_file" "\<lparr>filename = ''f.csv''\<rparr>" 1 0
        "headers_benchmark (settings_benchmark no_env no_file) \<lparr>filename = ''f.csv''\<rparr>" "(0, [])"]
      C1_unit_requests_and_samples [of
        "default_part_000 (constant_server \<lparr>status = 500, timings_duration = 7, json_id = JUndefined\<rparr>) (settings_part_000 no_env) 1 0"
        "constant_server \<lparr>status = 500, timings_duration = 7, json_id = JUndefined\<rparr>"
        "settings_part_000 no_env" "\<lparr>filename = []\<rparr>" 1 0
        "headers_part_000 (settings_part_000 no_env)" "((), [])"]
    by (simp add: create_response_def scenario_server_def constant_server_def create_request_def)
qed

text \<open>
  C9. When the identifier of the create response is usable, the unit of either script
  sleeps exactly four times, 0.1 s (100 ms) each, once after each of the create, read,
  update and delete requests; otherwise it does not sleep at all.
\<close>

theorem C9_unit_pauses:
  fixes server :: "'s server" and w :: "'s world"
  assumes "(unit = default_benchmark server cfg data vu iter \<and> hs = headers_benchmark cfg data)
         \<or> (unit = default_part_000 server cfg vu iter \<and> hs = headers_part_000 cfg)"
  shows "pacing_of (new_events w (unit w)) =
           (if truthy (json_id (create_response server cfg hs vu iter w))
            then [Inl POST, Inr (1 / 10), Inl GET, Inr (1 / 10), Inl PUT, Inr (1 / 10),
                  Inl DEL, Inr (1 / 10)]
            else [Inl POST])
       \<and> sleeps_of (new_events w (unit w)) =
           (if truthy (json_id (create_response server cfg hs vu iter w))
            then [1 / 10, 1 / 10, 1 / 10, 1 / 10] else [])"
proof -
  have u: "unit = crud_unit server cfg hs vu iter" by (rule script_cases [OF assms])
  show ?thesis
    unfolding u by (intro conjI crud_unit_pacing crud_unit_sleeps)
qed

theorem C9_unit_pauses_witness:
  "sleeps_of (new_events (0, [])
      (default_part_000 scenario_server (settings_part_000 no_env) 1 0 (0, []))) =
     [1 / 10, 1 / 10, 1 / 10, 1 / 10]
   \<and> sleeps_of (new_events ((), [])
      (default_benchmark (constant_server \<lparr>status = 200, timings_duration = 7, json_id = JNull\<rparr>)
         (settings_benchmark no_env no_file) \<lparr>filename = ''f.csv''\<rparr> 1 0 ((), []))) = []"
  using
    C9_unit_pauses [of
      "default_part_000 scenario_server (settings_part_000 no_env) 1 0"
      scenario_server "settings_part_000 no_env" "\<lparr>filename = []\<rparr>" 1 0
      "headers_part_000 (settings_part_000 no_env)" "(0, [])"]
    C9_unit_pauses [of
      "default_benchmark (constant_server \<lparr>status = 200, timings_duration = 7, json_id = JNull\<rparr>) (settings_benchmark no_env no_file) \<lparr>filename = ''f.csv''\<rparr> 1 0"
      "constant_server \<lparr>status = 200, timings_duration = 7, json_id = JNull\<rparr>"
      "settings_benchmark no_env no_file" "\<lparr>filename = ''f.csv''\<rparr>" 1 0
      "headers_benchmark (settings_benchmark no_env no_file) \<lparr>filename = ''f.csv''\<rparr>" "((), [])"]
  by (simp add: create_response_def scenario_server_def constant_server_def create_request_def)

text \<open>
  C10. The gate in front of the read, update and delete steps is the truthiness of the
  extracted identifier: the four requests are issued exactly when it is truthy. For the
  number 0 and for the empty string the steps are skipped. For an absent identifier
  (\<^verbatim>\<open>undefined\<close>) the steps are skipped although the recorded check
  \<^verbatim>\<open>POST response has ID\<close> passes; for \<^verbatim>\<open>null\<close> the steps are skipped and the check
  fails.
\<close>

theorem C10_truthiness_gate:
  fixes server :: "'s server" and w :: "'s world"
  assumes "(unit = default_benchmark server cfg data vu iter \<and> hs = headers_benchmark cfg data)
         \<or> (unit = default_part_000 server cfg vu iter \<and> hs = headers_part_000 cfg)"
  shows "(methods_of (new_events w (unit w)) = [POST, GET, PUT, DEL]
            \<longleftrightarrow> truthy (json_id (create_response server cfg hs vu iter w)))
       \<and> (json_id (create_response server cfg hs vu iter w) = JNum 0
            \<or> json_id (create_response server cfg hs vu iter w) = JStr []
          \<longrightarrow> methods_of (new_events w (unit w)) = [POST])
       \<and> (json_id (create_response server cfg hs vu iter w) = JUndefined
          \<longrightarrow> methods_of (new_events w (unit w)) = [POST]
              \<and> (''POST response has ID'', True) \<in> set (checks_of (new_events w (unit w))))
       \<and> (json_id (create_response server cfg hs vu iter w) = JNull
          \<longrightarrow> methods_of (new_events w (unit w)) = [POST]
              \<and> (''POST response has ID'', False) \<in> set (checks_of (new_events w (unit w))))"
proof -
  have u: "unit = crud_unit server cfg hs vu iter" by (rule script_cases [OF assms])
  have m: "methods_of (new_events w (unit w)) =
     (if truthy (json_id (create_response server cfg hs vu iter w)) then [POST, GET, PUT, DEL] else [POST])"
    unfolding u by (rule crud_unit_methods)
  have c: "(''POST response has ID'', json_id (create_response server cfg hs vu iter w) \<noteq> JNull)
     \<in> set (checks_of (new_events w (unit w)))"
    using crud_unit_id_check [of server cfg hs vu iter w] unfolding u by (simp add: strict_neq_null_def)
  show ?thesis
    using c by (auto simp: m)
qed

theorem C10_truthiness_gate_witness:
  "methods_of (new_events ((), [])
      (default_part_000 (constant_server \<lparr>status = 200, timings_duration = 7, json_id = JNum 0\<rparr>)
         (settings_part_000 no_env) 1 0 ((), []))) = [POST]
   \<and> methods_of (new_events ((), [])
      (default_part_000 (constant_server \<lparr>status = 200, timings_duration = 7, json_id = JStr []\<rparr>)
         (settings_part_000 no_env) 1 0 ((), []))) = [POST]
   \<and> (''POST response has ID'', True) \<in> set (checks_of (new_events ((), [])
      (default_part_000 (constant_server \<lparr>status = 200, timings_duration = 7, json_id = JUndefined\<rparr>)
         (settings_part_000 no_env) 1 0 ((), []))))
   \<and> (''POST response has ID'', False) \<in> set (checks_of (new_events ((), [])
      (default_part_000 (constant_server \<lparr>status = 200, timings_duration = 7, json_id = JNull\<rparr>)
         (settings_part_000 no_env) 1 0 ((), []))))
   \<and> methods_of (new_events (0, [])
      (default_part_000 scenario_server (settings_part_000 no_env) 1 0 (0, []))) = [POST, GET, PUT, DEL]"
  using
    C10_truthiness_gate [of
      "default_part_000 (constant_server \<lparr>status = 200, timings_duration = 7, json_id = JNum 0\<rparr>) (settings_part_000 no_env) 1 0"
      "constant_server \<lparr>status = 200, timings_duration = 7, json_id = JNum 0\<rparr>"
      "settings_part_000 no_env" "\<lparr>filename = []\<rparr>" 1 0
      "headers_part_000 (settings_part_000 no_env)" "((), [])"]
    C10_truthiness_gate [of
      "default_part_000 (constant_server \<lparr>status = 200, timings_duration = 7, json_id = JStr []\<rparr>) (settings_part_000 no_env) 1 0"
      "constant_server \<lparr>status = 200, timings_duration = 7, json_id = JStr []\<rparr>"
      "settings_part_000 no_env" "\<lparr>filename = []\<rparr>" 1 0
      "headers_part_000 (settings_part_000 no_env)" "((), [])"]
    C10_truthiness_gate [of
      "default_part_000 (constant_server \<lparr>status = 200, timings_duration = 7, json_id = JUndefined\<rparr>) (settings_part_000 no_env) 1 0"
      "constant_server \<lparr>status = 200, timings_duration = 7, json_id = JUndefined\<rparr>"
      "settings_part_000 no_env" "\<lparr>filename = []\<rparr>" 1 0
      "headers_part_000 (settings_part_000 no_env)" "((), [])"]
    C10_truthiness_gate [of
      "default_part_000 (constant_server \<lparr>status = 200, timings_duration = 7, json_id = JNull\<rparr>) (settings_part_000 no_env) 1 0"
      "constant_server \<lparr>status = 200, timings_duration = 7, json_id = JNull\<rparr>"
      "settings_part_000 no_env" "\<lparr>filename = []\<rparr>" 1 0
      "headers_part_000 (settings_part_000 no_env)" "((), [])"]
    C10_truthiness_gate [of
      "default_part_000 scenario_server (settings_part_000 no_env) 1 0"
      scenario_server "settings_part_000 no_env" "\<lparr>filename = []\<rparr>" 1 0
      "headers_part_000 (settings_part_000 no_env)" "(0, [])"]
  by (simp add: create_response_def scenario_server_def constant_server_def create_request_def)


section \<open>The warm-up phase: requests and samples\<close>

lemmas warmup_defs = warmup_body_benchmark_def warmup_body_part_000_def
  http_post_def http_get_def http_put_def http_del_def http_send_def emit_def

lemma methods_of_append: "methods_of (a @ b) = methods_of a @ methods_of b"
  by (simp add: methods_of_def requests_of_def)

lemma samples_of_append: "samples_of (a @ b) = samples_of a @ samples_of b"
  by (simp add: samples_of_def)

lemma requests_of_append: "requests_of (a @ b) = requests_of a @ requests_of b"
  by (simp add: requests_of_def)

lemma warmup_events_append:
  "warmup_events j a \<Longrightarrow> warmup_events k b \<Longrightarrow> warmup_events (j + k) (a @ b)"
  by (simp add: warmup_events_def methods_of_append samples_of_append)

lemma warmup_events_log: "warmup_events 0 [Log s]"
  by (simp add: warmup_events_def proj_defs)

lemma warmup_body_benchmark_extends:
  "snd (warmup_body_benchmark server cfg hs i w) =
     snd w @ new_events w (warmup_body_benchmark server cfg hs i w)"
  by (simp add: warmup_defs new_events_def Let_def case_prod_beta)

lemma warmup_body_benchmark_methods:
  "methods_of (new_events w (warmup_body_benchmark server cfg hs i w)) =
     (if truthy (json_id (fst (server (fst w) (warmup_request cfg hs i))))
      then [POST, GET, PUT, DEL] else [POST])"
  by (simp add: warmup_defs warmup_request_def new_events_def proj_defs Let_def case_prod_beta)

lemma warmup_body_benchmark_samples:
  "samples_of (new_events w (warmup_body_benchmark server cfg hs i w)) = []"
  by (simp add: warmup_defs new_events_def proj_defs Let_def case_prod_beta)

lemma warmup_body_benchmark_events:
  "\<exists>ev. snd (warmup_body_benchmark server cfg hs i w) = snd w @ ev \<and> warmup_events 1 ev"
proof -
  have "warmup_events 1 (new_events w (warmup_body_benchmark server cfg hs i w))"
    unfolding warmup_events_def warmup_body_benchmark_methods warmup_body_benchmark_samples
    by simp
  with warmup_body_benchmark_extends show ?thesis by blast
qed

lemma warmup_body_part_000_extends:
  "snd (warmup_body_part_000 server cfg hs i w) =
     snd w @ new_events w (warmup_body_part_000 server cfg hs i w)"
  by (simp add: warmup_defs new_events_def Let_def case_prod_beta)

lemma warmup_body_part_000_methods:
  "methods_of (new_events w (warmup_body_part_000 server cfg hs i w)) =
     (if truthy (json_id (fst (server (fst w) (warmup_request cfg hs i))))
      then [POST, GET, PUT, DEL] else [POST])"
  by (simp add: warmup_defs warmup_request_def new_events_def proj_defs Let_def case_prod_beta)

lemma warmup_body_part_000_samples:
  "samples_of (new_events w (warmup_body_part_000 server cfg hs i w)) = []"
  by (simp add: warmup_defs new_events_def proj_defs Let_def case_prod_beta)

lemma warmup_body_part_000_events:
  "\<exists>ev. snd (warmup_body_part_000 server cfg hs i w) = snd w @ ev \<and> warmup_events 1 ev"
proof -
  have "warmup_events 1 (new_events w (warmup_body_part_000 server cfg hs i w))"
    unfolding warmup_events_def warmup_body_part_000_methods warmup_body_part_000_samples
    by simp
  with warmup_body_part_000_extends show ?thesis by blast
qed

lemma warmup_loop_benchmark_events:
  "WARMUP_ITERATIONS cfg = Num n \<Longrightarrow>
   \<exists>ev. snd (warmup_loop_benchmark server cfg hs i w) = snd w @ ev
      \<and> warmup_events (nat (n - int i)) ev"
proof (induction server cfg hs i w rule: warmup_loop_benchmark.induct)
  case (1 server cfg hs i w)
  show ?case
  proof (cases "int i < n")
    case True
    obtain a where a: "snd (warmup_body_benchmark server cfg hs i w) = snd w @ a" "warmup_events 1 a"
      using warmup_body_benchmark_events by blast
    from True 1(2) have "js_lt (Num (int i)) (WARMUP_ITERATIONS cfg)" by simp
    from 1(1) [OF this 1(2)] obtain b where
      b: "snd (warmup_loop_benchmark server cfg hs (i + 1) (warmup_body_benchmark server cfg hs i w))
            = snd (warmup_body_benchmark server cfg hs i w) @ b"
         "warmup_events (nat (n - int (i + 1))) b"
      by blast
    have k: "1 + nat (n - int (i + 1)) = nat (n - int i)" using True by simp
    have "warmup_events (nat (n - int i)) (a @ b)"
      using warmup_events_append [OF a(2) b(2)] unfolding k .
    moreover have "snd (warmup_loop_benchmark server cfg hs i w) = snd w @ a @ b"
      using True 1(2) a(1) b(1) by (subst warmup_loop_benchmark.simps) simp
    ultimately show ?thesis by blast
  next
    case False
    with 1(2) have "warmup_loop_benchmark server cfg hs i w = w"
      by (subst warmup_loop_benchmark.simps) simp
    moreover from False have "nat (n - int i) = 0" by simp
    ultimately show ?thesis by (simp add: warmup_events_def proj_defs)
  qed
qed

lemma warmup_loop_part_000_events:
  "WARMUP_ITERATIONS cfg = Num n \<Longrightarrow>
   \<exists>ev. snd (warmup_loop_part_000 server cfg hs i w) = snd w @ ev
      \<and> warmup_events (nat (n - int i)) ev"
proof (induction server cfg hs i w rule: warmup_loop_part_000.induct)
  case (1 server cfg hs i w)
  show ?case
  proof (cases "int i < n")
    case True
    obtain a where a: "snd (warmup_body_part_000 server cfg hs i w) = snd w @ a" "warmup_events 1 a"
      using warmup_body_part_000_events by blast
    from True 1(2) have "js_lt (Num (int i)) (WARMUP_ITERATIONS cfg)" by simp
    from 1(1) [OF this 1(2)] obtain b where
      b: "snd (warmup_loop_part_000 server cfg hs (i + 1) (warmup_body_part_000 server cfg hs i w))
            = snd (warmup_body_part_000 server cfg hs i w) @ b"
         "warmup_events (nat (n - int (i + 1))) b"
      by blast
    have k: "1 + nat (n - int (i + 1)) = nat (n - int i)" using True by simp
    have "warmup_events (nat (n - int i)) (a @ b)"
      using warmup_events_append [OF a(2) b(2)] unfolding k .
    moreover have "snd (warmup_loop_part_000 server cfg hs i w) = snd w @ a @ b"
      using True 1(2) a(1) b(1) by (subst warmup_loop_part_000.simps) simp
    ultimately show ?thesis by blast
  next
    case False
    with 1(2) have "warmup_loop_part_000 server cfg hs i w = w"
      by (subst warmup_loop_part_000.simps) simp
    moreover from False have "nat (n - int i) = 0" by simp
    ultimately show ?thesis by (simp add: warmup_events_def proj_defs)
  qed
qed

text \<open>A count that is not a positive number runs no iteration.\<close>

lemma warmup_loop_benchmark_none:
  "\<not> js_lt (Num 0) (WARMUP_ITERATIONS cfg) \<Longrightarrow> warmup_loop_benchmark server cfg hs 0 w = w"
  by (subst warmup_loop_benchmark.simps) simp

lemma warmup_loop_part_000_none:
  "\<not> js_lt (Num 0) (WARMUP_ITERATIONS cfg) \<Longrightarrow> warmup_loop_part_000 server cfg hs 0 w = w"
  by (subst warmup_loop_part_000.simps) simp

lemma setup_benchmark_events:
  assumes "WARMUP_ITERATIONS cfg = Num (int W)"
  shows "warmup_events W (new_events w (snd (setup_benchmark server cfg now w)))"
proof (cases "W = 0")
  case True
  with assms show ?thesis
    by (simp add: setup_benchmark_def emit_def new_events_def warmup_events_def proj_defs Let_def)
next
  case False
  let ?hs = "[(''XDN'', SERVICE_NAME cfg), (''Content-Type'', ''application/json'')]"
  let ?w2 = "emit (Log (''Starting warm-up with '' @ show_jsnum (WARMUP_ITERATIONS cfg) @ '' iterations...''))
     (emit (Log (''Target Log File: '' @ ''bookcatalog_results_'' @ DATABASE_TYPE cfg @ ''_'' @ show_nat now @ ''.csv''))
        (emit (Log (CHR 0x0A # ''=== Starting Benchmark ==='')) w))"
  obtain ev where ev: "snd (warmup_loop_benchmark server cfg ?hs 0 ?w2) = snd ?w2 @ ev"
      "warmup_events (nat (int W - int 0)) ev"
    using warmup_loop_benchmark_events [OF assms] by blast
  have "new_events w (snd (setup_benchmark server cfg now w)) =
      [Log (CHR 0x0A # ''=== Starting Benchmark ===''),
       Log (''Target Log File: '' @ ''bookcatalog_results_'' @ DATABASE_TYPE cfg @ ''_'' @ show_nat now @ ''.csv''),
       Log (''Starting warm-up with '' @ show_jsnum (WARMUP_ITERATIONS cfg) @ '' iterations...'')]
      @ ev @ [Log ''Warm-up complete.'']"
  proof -
    have c: "js_lt (Num 0) (WARMUP_ITERATIONS cfg)" using False assms by simp
    have "snd (snd (setup_benchmark server cfg now w)) =
        snd (warmup_loop_benchmark server cfg ?hs 0 ?w2) @ [Log ''Warm-up complete.'']"
      unfolding setup_benchmark_def Let_def by (simp only: c if_True snd_conv emit_def)
    also have "\<dots> = snd ?w2 @ ev @ [Log ''Warm-up complete.'']"
      by (simp only: ev(1) append_assoc)
    finally show ?thesis
      by (simp add: emit_def new_events_def)
  qed
  moreover have "warmup_events (0 + (0 + (0 + (W + 0))))
     ([Log (CHR 0x0A # ''=== Starting Benchmark ==='')] @
       [Log (''Target Log File: '' @ ''bookcatalog_results_'' @ DATABASE_TYPE cfg @ ''_'' @ show_nat now @ ''.csv'')] @
       [Log (''Starting warm-up with '' @ show_jsnum (WARMUP_ITERATIONS cfg) @ '' iterations...'')]
      @ ev @ [Log ''Warm-up complete.''])"
    using ev(2) by (intro warmup_events_append warmup_events_log) simp
  ultimately show ?thesis by simp
qed

lemma setup_part_000_events:
  assumes "WARMUP_ITERATIONS cfg = Num (int W)"
  shows "warmup_events W (new_events w (setup_part_000 server cfg w))"
proof -
  let ?hs = "[(''XDN'', SERVICE_NAME cfg), (''Content-Type'', ''application/json'')]"
  let ?w1 = "emit (Log (''Starting warm-up with '' @ show_jsnum (WARMUP_ITERATIONS cfg) @ '' iterations'')) w"
  obtain ev where ev: "snd (warmup_loop_part_000 server cfg ?hs 0 ?w1) = snd ?w1 @ ev"
      "warmup_events (nat (int W - int 0)) ev"
    using warmup_loop_part_000_events [OF assms] by blast
  have "new_events w (setup_part_000 server cfg w) =
      [Log (''Starting warm-up with '' @ show_jsnum (WARMUP_ITERATIONS cfg) @ '' iterations'')]
      @ ev @ [Log ''Warm-up complete. Starting actual test.'']"
    using ev(1) by (simp add: setup_part_000_def emit_def new_events_def Let_def)
  moreover have "warmup_events (0 + (W + 0))
     ([Log (''Starting warm-up with '' @ show_jsnum (WARMUP_ITERATIONS cfg) @ '' iterations'')]
      @ ev @ [Log ''Warm-up complete. Starting actual test.''])"
    using ev(2) by (intro warmup_events_append warmup_events_log) simp
  ultimately show ?thesis by simp
qed

lemma setup_benchmark_no_warmup:
  "\<not> js_lt (Num 0) (WARMUP_ITERATIONS cfg) \<Longrightarrow>
   requests_of (new_events w (snd (setup_benchmark server cfg now w))) = []"
  by (simp add: setup_benchmark_def emit_def new_events_def requests_of_def Let_def)

lemma setup_part_000_no_warmup:
  "\<not> js_lt (Num 0) (WARMUP_ITERATIONS cfg) \<Longrightarrow>
   requests_of (new_events w (setup_part_000 server cfg w)) = []"
  by (simp add: setup_part_000_def warmup_loop_part_000_none emit_def new_events_def requests_of_def Let_def)

text \<open>
  C2. When the warm-up count is the non-negative integer \<open>W\<close>, \<^verbatim>\<open>setup\<close> of either script
  (which k6 runs once, before any virtual user starts) issues exactly \<open>W\<close> POST requests
  and at most \<open>W\<close> GET, \<open>W\<close> PUT and \<open>W\<close> DELETE requests, and adds no sample to any of
  the four latency trends. When \<open>W = 0\<close> it issues no HTTP request at all.
\<close>

theorem C2_warmup_phase:
  fixes server :: "'s server" and w :: "'s world"
  assumes "WARMUP_ITERATIONS cfg = Num (int W)"
    and "ev = new_events w (snd (setup_benchmark server cfg now w))
       \<or> ev = new_events w (setup_part_000 server cfg w)"
  shows "count_list (methods_of ev) POST = W
       \<and> count_list (methods_of ev) GET \<le> W
       \<and> count_list (methods_of ev) PUT \<le> W
       \<and> count_list (methods_of ev) DEL \<le> W
       \<and> samples_of ev = []
       \<and> (W = 0 \<longrightarrow> requests_of ev = [])"
proof -
  have "warmup_events W ev"
    using assms(2) setup_benchmark_events [OF assms(1)] setup_part_000_events [OF assms(1)]
    by blast
  moreover have "requests_of ev = []" if "W = 0"
  proof -
    from that assms(1) have "\<not> js_lt (Num 0) (WARMUP_ITERATIONS cfg)" by simp
    with assms(2) show ?thesis
      using setup_benchmark_no_warmup setup_part_000_no_warmup by blast
  qed
  ultimately show ?thesis by (simp add: warmup_events_def)
qed

theorem C2_warmup_phase_witness:
  "methods_of (new_events (0, [])
      (setup_part_000 scenario_server (settings_part_000 [''WARMUP_ITERATIONS'' \<mapsto> ''2'']) (0, [])))
     = [POST, GET, PUT, DEL, POST, GET, PUT, DEL]
   \<and> count_list (methods_of (new_events (0, [])
      (setup_part_000 scenario_server (settings_part_000 [''WARMUP_ITERATIONS'' \<mapsto> ''2'']) (0, [])))) POST = 2
   \<and> samples_of (new_events (0, [])
      (setup_part_000 scenario_server (settings_part_000 [''WARMUP_ITERATIONS'' \<mapsto> ''2'']) (0, []))) = []
   \<and> requests_of (new_events (0, [])
      (snd (setup_benchmark scenario_server (settings_benchmark no_env no_file) 1700000000000 (0, [])))) = []"
proof -
  have h2: "WARMUP_ITERATIONS (settings_part_000 [''WARMUP_ITERATIONS'' \<mapsto> ''2'']) = Num (int 2)"
    by code_simp
  have h0: "WARMUP_ITERATIONS (settings_benchmark no_env no_file) = Num (int 0)"
    by code_simp
  have m: "methods_of (new_events (0, [])
      (setup_part_000 scenario_server (settings_part_000 [''WARMUP_ITERATIONS'' \<mapsto> ''2'']) (0, [])))
     = [POST, GET, PUT, DEL, POST, GET, PUT, DEL]"
    by code_simp
  show ?thesis
    using m
      C2_warmup_phase [OF h2, of
        "new_events (0, []) (setup_part_000 scenario_server (settings_part_000 [''WARMUP_ITERATIONS'' \<mapsto> ''2'']) (0, []))"
        "(0, [])" scenario_server 0]
      C2_warmup_phase [OF h0, of
        "new_events (0, []) (snd (setup_benchmark scenario_server (settings_benchmark no_env no_file) 1700000000000 (0, [])))"
        "(0, [])" scenario_server 1700000000000]
    by simp
qed


section \<open>The report: averages, overall average, CSV file\<close>

lemma show_nat_is_digit: "list_all is_digit (show_nat n)"
  using show_nat_digits [of n] by (simp add: list_all_iff)

lemma toFixed2_two_decimals: "two_decimals (toFixed2 x)"
proof -
  define n where "n = nat \<lfloor>\<bar>x\<bar> * 100 + 1 / 2\<rfloor>"
  define m where "m = show_nat (n div 100) @ ''.'' @ [digit_char (n mod 100 div 10), digit_char (n mod 10)]"
  have d1: "is_digit (digit_char (n mod 100 div 10))" by (rule digit_char_is_digit) (simp add: div_less_iff_less_mult)
  have d2: "is_digit (digit_char (n mod 10))" by (rule digit_char_is_digit) simp
  have ne: "show_nat (n div 100) \<noteq> []" by (rule show_nat_nonempty)
  have hd: "hd m \<noteq> CHR ''-''"
    using show_nat_digits [of "n div 100"] ne by (cases "show_nat (n div 100)") (auto simp: m_def is_digit_def)
  have len: "length m = length (show_nat (n div 100)) + 3" by (simp add: m_def)
  have pos: "1 \<le> length (show_nat (n div 100))"
    using ne by (cases "show_nat (n div 100)") simp_all
  have tm: "two_decimals m"
    using hd ne pos d1 d2 show_nat_is_digit [of "n div 100"]
    by (simp add: two_decimals_def len) (simp add: m_def nth_append)
  have tmm: "two_decimals (CHR ''-'' # m)"
    using tm hd by (simp add: two_decimals_def)
  have e: "toFixed2 x = (if x < 0 then CHR ''-'' # m else m)"
    unfolding toFixed2_def Let_def m_def n_def by (rule refl)
  show ?thesis
    unfolding e using tm tmm by simp
qed


lemma toFixed2_of_nat: "toFixed2 (of_nat k) = show_nat k @ ''.00''"
proof -
  have "\<lfloor>\<bar>of_nat k :: rat\<bar> * 100 + 1 / 2\<rfloor> = int (k * 100)"
    by (rule floor_unique) simp_all
  then have n: "nat \<lfloor>\<bar>of_nat k :: rat\<bar> * 100 + 1 / 2\<rfloor> = k * 100" by simp
  show ?thesis
    unfolding toFixed2_def Let_def n by (simp add: digit_char_def)
qed

lemma show_nat_small:
  "show_nat 0 = ''0''" "show_nat 10 = ''10''" "show_nat 20 = ''20''" "show_nat 25 = ''25''"
  "show_nat 30 = ''30''" "show_nat 40 = ''40''"
  by (simp_all add: show_nat.simps digit_char_def)

lemma toFixed2_small:
  "toFixed2 0 = ''0.00''" "toFixed2 10 = ''10.00''" "toFixed2 20 = ''20.00''"
  "toFixed2 25 = ''25.00''" "toFixed2 30 = ''30.00''" "toFixed2 40 = ''40.00''"
  using toFixed2_of_nat [of 0] toFixed2_of_nat [of 10] toFixed2_of_nat [of 20]
    toFixed2_of_nat [of 25] toFixed2_of_nat [of 30] toFixed2_of_nat [of 40]
  by (simp_all add: show_nat_small)

lemma filename_not_std:
  "''bookcatalog_results_'' @ rest \<noteq> ''stdout'' \<and> ''bookcatalog_results_'' @ rest \<noteq> ''stderr''"
  by simp

lemma part_000_files_written:
  "files_written (handleSummary_part_000 cfg now data) =
     [(''bookcatalog_results_'' @ DATABASE_TYPE cfg @ ''_'' @ show_nat now @ ''.csv'',
       csvHeader @ csvRow data)]"
  by (simp add: files_written_def handleSummary_part_000_def Let_def)

lemma benchmark_files_written:
  "files_written (handleSummary_benchmark textSummary cfg data) = []"
  by (simp add: files_written_def handleSummary_benchmark_def)

lemma avg_cases:
  "fst (avgGetLatency data) = (case metric_avg data ''get_book_latency'' of Some a \<Rightarrow> a | None \<Rightarrow> 0)"
  "fst (avgCreateLatency data) = (case metric_avg data ''create_book_latency'' of Some a \<Rightarrow> a | None \<Rightarrow> 0)"
  "fst (avgUpdateLatency data) = (case metric_avg data ''update_book_latency'' of Some a \<Rightarrow> a | None \<Rightarrow> 0)"
  "fst (avgDeleteLatency data) = (case metric_avg data ''delete_book_latency'' of Some a \<Rightarrow> a | None \<Rightarrow> 0)"
  by (simp_all add: avgGetLatency_def avgCreateLatency_def avgUpdateLatency_def avgDeleteLatency_def
      split: option.splits)

lemma split_lines_from_line:
  "CHR 0x0A \<notin> set xs \<Longrightarrow>
   split_lines_from cur (xs @ CHR 0x0A # rest) = strip_cr (cur @ xs) # split_lines_from [] rest"
  by (induction xs arbitrary: cur) auto

lemma split_lines_from_last:
  "CHR 0x0A \<notin> set xs \<Longrightarrow> split_lines_from cur xs = [cur @ xs]"
  by (induction xs arbitrary: cur) auto

lemma newline_not_digit: "\<not> is_digit (CHR 0x0A)" "\<not> is_digit (CHR 0x0D)"
  by (simp_all add: is_digit_def)

lemma show_nat_no_newline: "CHR 0x0A \<notin> set (show_nat n)" "CHR 0x0D \<notin> set (show_nat n)"
  using show_nat_digits [of n] newline_not_digit by blast+

lemma digit_char_no_newline:
  assumes "d < 10"
  shows "digit_char d \<noteq> CHR 0x0A" "digit_char d \<noteq> CHR 0x0D"
  using digit_char_is_digit [OF assms] newline_not_digit by metis+

lemma toFixed2_no_newline: "CHR 0x0A \<notin> set (toFixed2 x)" "CHR 0x0D \<notin> set (toFixed2 x)"
proof -
  define n where "n = nat \<lfloor>\<bar>x\<bar> * 100 + 1 / 2\<rfloor>"
  define m where "m = show_nat (n div 100) @ ''.'' @ [digit_char (n mod 100 div 10), digit_char (n mod 10)]"
  have e: "toFixed2 x = (if x < 0 then CHR ''-'' # m else m)"
    unfolding toFixed2_def Let_def m_def n_def by (rule refl)
  have d1: "n mod 100 div 10 < 10" by (simp add: div_less_iff_less_mult)
  have d2: "n mod 10 < 10" by simp
  have "CHR 0x0A \<notin> set m"
    unfolding m_def
    using show_nat_no_newline(1) [of "n div 100"] digit_char_no_newline(1) [OF d1]
      digit_char_no_newline(1) [OF d2]
    by simp
  moreover have "CHR 0x0D \<notin> set m"
    unfolding m_def
    using show_nat_no_newline(2) [of "n div 100"] digit_char_no_newline(2) [OF d1]
      digit_char_no_newline(2) [OF d2]
    by simp
  ultimately show "CHR 0x0A \<notin> set (toFixed2 x)" "CHR 0x0D \<notin> set (toFixed2 x)"
    unfolding e by simp_all
qed

lemma strip_cr_id: "CHR 0x0D \<notin> set xs \<Longrightarrow> strip_cr xs = xs"
  by (cases "xs = []") (auto simp: strip_cr_def dest: last_in_set)

lemma csv_lines:
  "split_lines (csvHeader @ csvRow data) =
     [''get_latency,create_latency,update_latency,delete_latency,overall_latency'',
      toFixed2 (fst (avgGetLatency data)) @ '','' @ toFixed2 (fst (avgCreateLatency data)) @ '',''
       @ toFixed2 (fst (avgUpdateLatency data)) @ '','' @ toFixed2 (fst (avgDeleteLatency data))
       @ '','' @ toFixed2 (overallLatency data),
      []]"
proof -
  let ?h = "''get_latency,create_latency,update_latency,delete_latency,overall_latency''"
  let ?r = "toFixed2 (fst (avgGetLatency data)) @ '','' @ toFixed2 (fst (avgCreateLatency data)) @ '',''
       @ toFixed2 (fst (avgUpdateLatency data)) @ '','' @ toFixed2 (fst (avgDeleteLatency data))
       @ '','' @ toFixed2 (overallLatency data)"
  have h: "CHR 0x0A \<notin> set ?h" by simp
  have r: "CHR 0x0A \<notin> set ?r" by (simp add: toFixed2_no_newline)
  have rl: "strip_cr ?r = ?r" by (rule strip_cr_id) (simp add: toFixed2_no_newline)
  have hl: "strip_cr ?h = ?h" by (rule strip_cr_id) simp
  have "csvHeader @ csvRow data = ?h @ CHR 0x0A # (?r @ CHR 0x0A # [])"
    by (simp add: csvHeader_def csvRow_def)
  then have "split_lines (csvHeader @ csvRow data) = split_lines_from [] (?h @ CHR 0x0A # (?r @ CHR 0x0A # []))"
    by (simp only: split_lines_def)
  also have "\<dots> = strip_cr ([] @ ?h) # split_lines_from [] (?r @ CHR 0x0A # [])"
    by (rule split_lines_from_line [OF h])
  also have "split_lines_from [] (?r @ CHR 0x0A # []) = strip_cr ([] @ ?r) # split_lines_from [] []"
    by (rule split_lines_from_line [OF r])
  finally show ?thesis using rl hl by simp
qed



text \<open>
  C5. \<^verbatim>\<open>handleSummary\<close> of part_000 is defined for every summary. For each operation kind
  whose metric is unavailable (no entry in \<^verbatim>\<open>data.metrics\<close>, or an entry without values), the
  average of that kind is 0, the line \<^verbatim>\<open>Warning: <KIND> latency metrics not available\<close> is
  logged, the kind contributes 0 to the overall average, and the CSV file is still
  produced.
\<close>

theorem C5_missing_metrics:
  "(metric_avg data ''get_book_latency'' = None \<longrightarrow>
      fst (avgGetLatency data) = 0
      \<and> ''Warning: GET latency metrics not available''
          \<in> set (console (handleSummary_part_000 cfg now data)))
   \<and> (metric_avg data ''create_book_latency'' = None \<longrightarrow>
      fst (avgCreateLatency data) = 0
      \<and> ''Warning: CREATE latency metrics not available''
          \<in> set (console (handleSummary_part_000 cfg now data)))
   \<and> (metric_avg data ''update_book_latency'' = None \<longrightarrow>
      fst (avgUpdateLatency data) = 0
      \<and> ''Warning: UPDATE latency metrics not available''
          \<in> set (console (handleSummary_part_000 cfg now data)))
   \<and> (metric_avg data ''delete_book_latency'' = None \<longrightarrow>
      fst (avgDeleteLatency data) = 0
      \<and> ''Warning: DELETE latency metrics not available''
          \<in> set (console (handleSummary_part_000 cfg now data)))
   \<and> overallLatency data =
       ((case metric_avg data ''get_book_latency'' of Some a \<Rightarrow> a | None \<Rightarrow> 0)
        + (case metric_avg data ''create_book_latency'' of Some a \<Rightarrow> a | None \<Rightarrow> 0)
        + (case metric_avg data ''update_book_latency'' of Some a \<Rightarrow> a | None \<Rightarrow> 0)
        + (case metric_avg data ''delete_book_latency'' of Some a \<Rightarrow> a | None \<Rightarrow> 0)) / 4
   \<and> files_written (handleSummary_part_000 cfg now data) =
       [(''bookcatalog_results_'' @ DATABASE_TYPE cfg @ ''_'' @ show_nat now @ ''.csv'',
         csvHeader @ csvRow data)]"
proof -
  have g: "fst (avgGetLatency data) = 0
      \<and> ''Warning: GET latency metrics not available''
          \<in> set (console (handleSummary_part_000 cfg now data))"
    if "metric_avg data ''get_book_latency'' = None"
    using that by (simp add: handleSummary_part_000_def avgGetLatency_def Let_def)
  have c: "fst (avgCreateLatency data) = 0
      \<and> ''Warning: CREATE latency metrics not available''
          \<in> set (console (handleSummary_part_000 cfg now data))"
    if "metric_avg data ''create_book_latency'' = None"
    using that by (simp add: handleSummary_part_000_def avgCreateLatency_def Let_def)
  have u: "fst (avgUpdateLatency data) = 0
      \<and> ''Warning: UPDATE latency metrics not available''
          \<in> set (console (handleSummary_part_000 cfg now data))"
    if "metric_avg data ''update_book_latency'' = None"
    using that by (simp add: handleSummary_part_000_def avgUpdateLatency_def Let_def)
  have d: "fst (avgDeleteLatency data) = 0
      \<and> ''Warning: DELETE latency metrics not available''
          \<in> set (console (handleSummary_part_000 cfg now data))"
    if "metric_avg data ''delete_book_latency'' = None"
    using that by (simp add: handleSummary_part_000_def avgDeleteLatency_def Let_def)
  have o: "overallLatency data =
       ((case metric_avg data ''get_book_latency'' of Some a \<Rightarrow> a | None \<Rightarrow> 0)
        + (case metric_avg data ''create_book_latency'' of Some a \<Rightarrow> a | None \<Rightarrow> 0)
        + (case metric_avg data ''update_book_latency'' of Some a \<Rightarrow> a | None \<Rightarrow> 0)
        + (case metric_avg data ''delete_book_latency'' of Some a \<Rightarrow> a | None \<Rightarrow> 0)) / 4"
    by (simp only: overallLatency_def avg_cases)
  from g c u d o part_000_files_written show ?thesis by blast
qed

theorem C5_missing_metrics_witness:
  "fst (avgGetLatency empty_data) = 0 \<and> fst (avgCreateLatency empty_data) = 0
   \<and> fst (avgUpdateLatency empty_data) = 0 \<and> fst (avgDeleteLatency empty_data) = 0
   \<and> overallLatency empty_data = 0
   \<and> take 4 (console (handleSummary_part_000 (settings_part_000 no_env) 1700000000000 empty_data)) =
       [''Warning: GET latency metrics not available'',
        ''Warning: CREATE latency metrics not available'',
        ''Warning: UPDATE latency metrics not available'',
        ''Warning: DELETE latency metrics not available'']
   \<and> csvRow empty_data = ''0.00,0.00,0.00,0.00,0.00'' @ [CHR 0x0A]"
proof -
  have a: "metric_avg empty_data ''get_book_latency'' = None"
    "metric_avg empty_data ''create_book_latency'' = None"
    "metric_avg empty_data ''update_book_latency'' = None"
    "metric_avg empty_data ''delete_book_latency'' = None"
    by (simp_all add: metric_avg_def empty_data_def)
  have t: "take 4 (console (handleSummary_part_000 (settings_part_000 no_env) 1700000000000 empty_data)) =
       [''Warning: GET latency metrics not available'',
        ''Warning: CREATE latency metrics not available'',
        ''Warning: UPDATE latency metrics not available'',
        ''Warning: DELETE latency metrics not available'']"
    using a by (simp add: handleSummary_part_000_def avgGetLatency_def avgCreateLatency_def
        avgUpdateLatency_def avgDeleteLatency_def Let_def)
  have r: "csvRow empty_data = ''0.00,0.00,0.00,0.00,0.00'' @ [CHR 0x0A]"
    using a by (simp add: csvRow_def overallLatency_def avg_cases toFixed2_small)
  show ?thesis
    using a t r C5_missing_metrics [of empty_data "settings_part_000 no_env" 1700000000000]
    by simp
qed

text \<open>
  C4 as stated fails for benchmark.js: at the end of a run its \<^verbatim>\<open>handleSummary\<close> hands k6
  no file to write.
\<close>

theorem C4_counterexample:
  "files_written (handleSummary_benchmark plain_summary (settings_benchmark no_env no_file)
      scenario_data) = []"
  by (simp add: files_written_def handleSummary_benchmark_def)

text \<open>
  C4 (amended). \<^verbatim>\<open>handleSummary\<close> of part_000 returns exactly one entry that k6 writes to a
  file. Its name is \<^verbatim>\<open>bookcatalog_results_<DATABASE_TYPE>_<epoch-millis>.csv\<close>; its content is
  the header line followed by one data row of the five averages, in the order get, create,
  update, delete, overall, and when the averages are below \<open>10 ^ 21\<close> in magnitude (where
  \<^verbatim>\<open>toFixed\<close> prints in fixed notation) each is written with exactly two decimal places.
  \<^verbatim>\<open>handleSummary\<close> of benchmark.js returns the text summary for the terminal only: it
  writes no file.
\<close>

theorem C4_csv_file:
  assumes "\<forall>x \<in> {fst (avgGetLatency data), fst (avgCreateLatency data),
                 fst (avgUpdateLatency data), fst (avgDeleteLatency data),
                 overallLatency data}. \<bar>x\<bar> < 10 ^ 21"
  shows "files_written (handleSummary_part_000 cfg now data) =
           [(''bookcatalog_results_'' @ DATABASE_TYPE cfg @ ''_'' @ show_nat now @ ''.csv'',
             ''get_latency,create_latency,update_latency,delete_latency,overall_latency''
               @ [CHR 0x0A]
               @ toFixed2 (fst (avgGetLatency data)) @ '',''
               @ toFixed2 (fst (avgCreateLatency data)) @ '',''
               @ toFixed2 (fst (avgUpdateLatency data)) @ '',''
               @ toFixed2 (fst (avgDeleteLatency data)) @ '',''
               @ toFixed2 (overallLatency data) @ [CHR 0x0A])]
       \<and> split_lines (snd (hd (files_written (handleSummary_part_000 cfg now data)))) =
           [''get_latency,create_latency,update_latency,delete_latency,overall_latency'',
            toFixed2 (fst (avgGetLatency data)) @ '','' @ toFixed2 (fst (avgCreateLatency data))
              @ '','' @ toFixed2 (fst (avgUpdateLatency data)) @ '',''
              @ toFixed2 (fst (avgDeleteLatency data)) @ '','' @ toFixed2 (overallLatency data),
            []]
       \<and> two_decimals (toFixed2 (fst (avgGetLatency data)))
       \<and> two_decimals (toFixed2 (fst (avgCreateLatency data)))
       \<and> two_decimals (toFixed2 (fst (avgUpdateLatency data)))
       \<and> two_decimals (toFixed2 (fst (avgDeleteLatency data)))
       \<and> two_decimals (toFixed2 (overallLatency data))
       \<and> files_written (handleSummary_benchmark textSummary cfg data) = []"
proof -
  have a: "files_written (handleSummary_part_000 cfg now data) =
           [(''bookcatalog_results_'' @ DATABASE_TYPE cfg @ ''_'' @ show_nat now @ ''.csv'',
             csvHeader @ csvRow data)]"
    by (rule part_000_files_written)
  have b: "csvHeader @ csvRow data =
             ''get_latency,create_latency,update_latency,delete_latency,overall_latency''
               @ [CHR 0x0A]
               @ toFixed2 (fst (avgGetLatency data)) @ '',''
               @ toFixed2 (fst (avgCreateLatency data)) @ '',''
               @ toFixed2 (fst (avgUpdateLatency data)) @ '',''
               @ toFixed2 (fst (avgDeleteLatency data)) @ '',''
               @ toFixed2 (overallLatency data) @ [CHR 0x0A]"
    by (simp add: csvHeader_def csvRow_def)
  have c: "split_lines (snd (hd (files_written (handleSummary_part_000 cfg now data)))) =
      split_lines (csvHeader @ csvRow data)"
    by (simp add: a)
  show ?thesis
    unfolding c csv_lines unfolding a b
    by (intro conjI refl toFixed2_two_decimals benchmark_files_written)
qed

theorem C4_csv_file_witness:
  "files_written (handleSummary_part_000 (settings_part_000 no_env) 1700000000000 scenario_data) =
     [(''bookcatalog_results_sqlite_1700000000000.csv'',
       ''get_latency,create_latency,update_latency,delete_latency,overall_latency'' @ [CHR 0x0A]
         @ ''20.00,10.00,30.00,40.00,25.00'' @ [CHR 0x0A])]"
proof -
  have v: "fst (avgGetLatency scenario_data) = 20" "fst (avgCreateLatency scenario_data) = 10"
    "fst (avgUpdateLatency scenario_data) = 30" "fst (avgDeleteLatency scenario_data) = 40"
    "overallLatency scenario_data = 25"
    by (simp_all add: overallLatency_def avg_cases metric_avg_def scenario_data_def)
  have h: "\<forall>x \<in> {fst (avgGetLatency scenario_data), fst (avgCreateLatency scenario_data),
                 fst (avgUpdateLatency scenario_data), fst (avgDeleteLatency scenario_data),
                 overallLatency scenario_data}. \<bar>x\<bar> < 10 ^ 21"
    by (simp add: v)
  note f = toFixed2_small
  have n: "show_nat 1700000000000 = ''1700000000000''"
    by (simp add: show_nat.simps digit_char_def)
  have d: "DATABASE_TYPE (settings_part_000 no_env) = ''sqlite''"
    by (simp add: settings_part_000_def no_env_def or_default_def)
  have "files_written (handleSummary_part_000 (settings_part_000 no_env) 1700000000000 scenario_data) =
           [(''bookcatalog_results_'' @ DATABASE_TYPE (settings_part_000 no_env) @ ''_'' @ show_nat 1700000000000 @ ''.csv'',
             ''get_latency,create_latency,update_latency,delete_latency,overall_latency''
               @ [CHR 0x0A]
               @ toFixed2 (fst (avgGetLatency scenario_data)) @ '',''
               @ toFixed2 (fst (avgCreateLatency scenario_data)) @ '',''
               @ toFixed2 (fst (avgUpdateLatency scenario_data)) @ '',''
               @ toFixed2 (fst (avgDeleteLatency scenario_data)) @ '',''
               @ toFixed2 (overallLatency scenario_data) @ [CHR 0x0A])]"
    using C4_csv_file [OF h, of "settings_part_000 no_env" 1700000000000 plain_summary]
    by (rule conjunct1)
  then show ?thesis
    unfolding v f n d by simp
qed





section \<open>Configuration resolution\<close>

lemma chain_resolved:
  "or_default (js_or (env k) (file k)) d = resolved_nonempty env file k d"
  by (simp add: or_default_def js_or_def resolved_nonempty_def nonempty_value_def
      split: option.splits)

lemma resolved_agree:
  "file k \<noteq> Some [] \<Longrightarrow> resolved_nonempty env file k d = resolved_by_spec env file k d"
  by (simp add: resolved_nonempty_def resolved_by_spec_def nonempty_value_def split: option.splits)

lemma env_line_ignored: "ignored_line l \<Longrightarrow> env_line acc l = acc"
  by (auto simp: env_line_def ignored_line_def Let_def)

lemma foldl_env_line_filter:
  "foldl env_line acc ls = foldl env_line acc (filter (\<lambda>l. \<not> ignored_line l) ls)"
  by (induction ls arbitrary: acc) (simp_all add: env_line_ignored)

lemma quote_not_space: "is_quote q \<Longrightarrow> \<not> is_space q"
  by (auto simp: is_quote_def is_space_def)

lemma trim_id:
  assumes "s \<noteq> []" "\<not> is_space (hd s)" "\<not> is_space (last s)"
  shows "trim s = s"
proof -
  have a: "dropWhile is_space s = s" using assms(1,2) by (cases s) simp_all
  have "dropWhile is_space (rev s) = rev s"
    using assms(1,3) by (cases "rev s") (simp_all add: last_rev [symmetric] hd_rev)
  with a show ?thesis by (simp add: trim_def)
qed

lemma strip_quotes_quoted:
  "is_quote q \<Longrightarrow> is_quote q' \<Longrightarrow> strip_quotes (q # v @ [q']) = v"
  by (simp add: strip_quotes_def)

lemma indexOf_key: "c \<notin> set k \<Longrightarrow> indexOf c (k @ c # rest) = Some (length k)"
proof -
  assume "c \<notin> set k"
  then have "takeWhile (\<lambda>x. x \<noteq> c) (k @ c # rest) = k" by (induction k) auto
  then show ?thesis by (simp add: indexOf_def)
qed

lemma env_line_quoted:
  assumes q: "is_quote q" "is_quote q'"
    and k: "key \<noteq> []" "CHR ''='' \<notin> set key" "\<not> is_space (hd key)" "\<not> is_space (last key)"
      "hd key \<noteq> CHR ''#''" "key \<noteq> ''__proto__''"
  shows "env_line acc (key @ ''='' @ [q] @ v @ [q']) = acc(key \<mapsto> v)"
proof -
  let ?l = "key @ CHR ''='' # q # v @ [q']"
  have t: "trim ?l = ?l"
    using k(1,3) q(2) by (intro trim_id) (simp_all add: quote_not_space hd_append)
  have i: "indexOf CHR ''='' ?l = Some (length key)" by (rule indexOf_key [OF k(2)])
  have tk: "trim key = key" by (rule trim_id [OF k(1,3,4)])
  have tv: "trim (q # v @ [q']) = q # v @ [q']"
    using q by (intro trim_id) (simp_all add: quote_not_space)
  have h: "hd ?l \<noteq> CHR ''#''" using k(1,5) by (simp add: hd_append)
  show ?thesis
    using k(1,6) h
    by (simp add: env_line_def t i tk tv strip_quotes_quoted [OF q] Let_def)
qed

lemma parse_tail:
  assumes "S1 = [] \<or> \<not> is_radix_digit 10 (hd S1)"
  shows "takeWhile (is_radix_digit (if take 2 S1 = ''0x'' \<or> take 2 S1 = ''0X'' then 16 else 10))
           (if take 2 S1 = ''0x'' \<or> take 2 S1 = ''0X'' then drop 2 S1 else S1) = []"
proof -
  have z: "is_radix_digit 10 (CHR ''0'')" by (simp add: is_radix_digit_def digit_val_def)
  have nohex: "\<not> (take 2 S1 = ''0x'' \<or> take 2 S1 = ''0X'')"
    using assms z by (cases S1) auto
  have "takeWhile (is_radix_digit 10) S1 = []"
    using assms by (cases S1) auto
  with nohex show ?thesis by simp
qed

lemma parseInt_non_numeric:
  assumes "non_numeric s"
  shows "parseInt s = NaN"
  using parse_tail [OF assms [unfolded non_numeric_def Let_def]]
  unfolding parseInt_def Let_def by (simp only: if_True simp_thms)


lemma parseInt_defaults: "parseInt ''1'' = Num 1" "parseInt ''0'' = Num 0"
  by (simp_all add: parseInt_def is_space_def is_radix_digit_def digit_val_def digits_value_def)

lemma settings_benchmark_fields:
  "SERVICE_NAME (settings_benchmark env open_file) =
     resolved_nonempty env (loadEnvFile open_file ''.env'') ''SERVICE_NAME'' ''bookcatalog-nd-app''"
  "BASE_URL (settings_benchmark env open_file) =
     resolved_nonempty env (loadEnvFile open_file ''.env'') ''BASE_URL''
       ''http://localhost:8081/api/books''"
  "VUS (settings_benchmark env open_file) =
     parseInt (resolved_nonempty env (loadEnvFile open_file ''.env'') ''VUS'' ''1'')"
  "DURATION (settings_benchmark env open_file) =
     resolved_nonempty env (loadEnvFile open_file ''.env'') ''DURATION'' ''30s''"
  "WARMUP_ITERATIONS (settings_benchmark env open_file) =
     parseInt (resolved_nonempty env (loadEnvFile open_file ''.env'') ''WARMUP_ITERATIONS'' ''0'')"
  "DATABASE_TYPE (settings_benchmark env open_file) =
     resolved_nonempty env (loadEnvFile open_file ''.env'') ''DATABASE_TYPE'' ''sqlite''"
  by (simp_all add: settings_benchmark_def Let_def chain_resolved)

lemma loadEnvFile_missing: "open_file path = None \<Longrightarrow> loadEnvFile open_file path = Map.empty"
  by (simp add: loadEnvFile_def)

lemma loadEnvFile_filter:
  "open_file path = Some content \<Longrightarrow>
   loadEnvFile open_file path =
     foldl env_line Map.empty (filter (\<lambda>l. \<not> ignored_line l) (split_lines content))"
  using foldl_env_line_filter [of Map.empty "split_lines content"] by (simp add: loadEnvFile_def)

text \<open>
  C6 as stated fails where the settings file defines a key with an empty value: for the file
  \<^verbatim>\<open>SERVICE_NAME=\<close> and no environment variable, the file defines \<^verbatim>\<open>SERVICE_NAME\<close> as the empty
  string, the stated order resolves to that empty string, and the script resolves to the
  default.
\<close>

theorem C6_counterexample:
  "loadEnvFile blank_name_file ''.env'' ''SERVICE_NAME'' = Some []
   \<and> resolved_by_spec no_env (loadEnvFile blank_name_file ''.env'') ''SERVICE_NAME''
         ''bookcatalog-nd-app'' = []
   \<and> SERVICE_NAME (settings_benchmark no_env blank_name_file) = ''bookcatalog-nd-app''"
proof -
  have l: "loadEnvFile blank_name_file ''.env'' ''SERVICE_NAME'' = Some []"
    by (simp add: loadEnvFile_def blank_name_file_def split_lines_def env_line_def trim_def
        is_space_def indexOf_def strip_quotes_def Let_def)
  show ?thesis
    by (simp add: settings_benchmark_fields resolved_nonempty_def resolved_by_spec_def
        nonempty_value_def no_env_def l)
qed

text \<open>
  C6 (amended). In benchmark.js every setting is resolved in this order: the environment
  variable if it is present and non-empty, otherwise the value of the settings file if the
  file defines the key with a non-empty value, otherwise the default (\<^verbatim>\<open>bookcatalog-nd-app\<close>,
  \<^verbatim>\<open>1\<close>, \<^verbatim>\<open>30s\<close>, \<^verbatim>\<open>0\<close>, \<^verbatim>\<open>sqlite\<close>); \<^verbatim>\<open>VUS\<close> and \<^verbatim>\<open>WARMUP_ITERATIONS\<close> are the
  \<^verbatim>\<open>parseInt\<close> of the string so chosen, which is 1 and 0 for the defaults. This agrees with
  the order as stated whenever the file does not define the key as the empty string. A
  missing or unreadable file defines no key; blank lines and lines starting with \<^verbatim>\<open>#\<close> change
  nothing; and a line \<^verbatim>\<open>KEY='value'\<close> or \<^verbatim>\<open>KEY="value"\<close> defines \<^verbatim>\<open>KEY\<close> as \<^verbatim>\<open>value\<close> without the
  quotes.
\<close>

theorem C6_settings_resolution:
  assumes "envFile = loadEnvFile open_file ''.env''" and "cfg = settings_benchmark env open_file"
  shows "SERVICE_NAME cfg = resolved_nonempty env envFile ''SERVICE_NAME'' ''bookcatalog-nd-app''
       \<and> BASE_URL cfg =
           resolved_nonempty env envFile ''BASE_URL'' ''http://localhost:8081/api/books''
       \<and> VUS cfg = parseInt (resolved_nonempty env envFile ''VUS'' ''1'')
       \<and> DURATION cfg = resolved_nonempty env envFile ''DURATION'' ''30s''
       \<and> WARMUP_ITERATIONS cfg = parseInt (resolved_nonempty env envFile ''WARMUP_ITERATIONS'' ''0'')
       \<and> DATABASE_TYPE cfg = resolved_nonempty env envFile ''DATABASE_TYPE'' ''sqlite''
       \<and> parseInt ''1'' = Num 1 \<and> parseInt ''0'' = Num 0
       \<and> (envFile k \<noteq> Some [] \<longrightarrow>
            resolved_nonempty env envFile k d = resolved_by_spec env envFile k d)
       \<and> (open_file ''.env'' = None \<longrightarrow> envFile = Map.empty)
       \<and> (\<forall>content. open_file ''.env'' = Some content \<longrightarrow>
            envFile = foldl env_line Map.empty
                        (filter (\<lambda>l. \<not> ignored_line l) (split_lines content)))
       \<and> (is_quote q \<and> is_quote q' \<and> key \<noteq> [] \<and> CHR ''='' \<notin> set key
            \<and> \<not> is_space (hd key) \<and> \<not> is_space (last key) \<and> hd key \<noteq> CHR ''#''
            \<and> key \<noteq> ''__proto__'' \<longrightarrow>
            env_line acc (key @ ''='' @ [q] @ v @ [q']) = acc(key \<mapsto> v))"
proof -
  have a: "envFile k \<noteq> Some [] \<longrightarrow>
            resolved_nonempty env envFile k d = resolved_by_spec env envFile k d"
    using resolved_agree [of envFile k env d] by blast
  have b: "open_file ''.env'' = None \<longrightarrow> envFile = Map.empty"
    unfolding assms(1) using loadEnvFile_missing [of open_file "''.env''"] by blast
  have c: "\<forall>content. open_file ''.env'' = Some content \<longrightarrow>
            envFile = foldl env_line Map.empty
                        (filter (\<lambda>l. \<not> ignored_line l) (split_lines content))"
    unfolding assms(1) using loadEnvFile_filter [of open_file "''.env''"] by blast
  have e: "is_quote q \<and> is_quote q' \<and> key \<noteq> [] \<and> CHR ''='' \<notin> set key
            \<and> \<not> is_space (hd key) \<and> \<not> is_space (last key) \<and> hd key \<noteq> CHR ''#''
            \<and> key \<noteq> ''__proto__'' \<longrightarrow>
            env_line acc (key @ ''='' @ [q] @ v @ [q']) = acc(key \<mapsto> v)"
    using env_line_quoted [of q q' key acc v] by blast
  show ?thesis
    unfolding assms(2) settings_benchmark_fields assms(1) [symmetric]
    by (intro conjI refl parseInt_defaults a b c e)
qed

lemmas parser_defs = loadEnvFile_def split_lines_def env_line_def trim_def
  is_space_def indexOf_def strip_quotes_def is_quote_def strip_cr_def Let_def

lemma sample_file_keys:
  "loadEnvFile sample_file ''.env'' ''SERVICE_NAME'' = None"
  "loadEnvFile sample_file ''.env'' ''VUS'' = Some ''8''"
  "loadEnvFile sample_file ''.env'' ''DURATION'' = Some ''10s''"
  "loadEnvFile sample_file ''.env'' ''WARMUP_ITERATIONS'' = None"
  "loadEnvFile sample_file ''.env'' ''DATABASE_TYPE'' = Some ''postgres''"
  by (simp_all add: sample_file_def parser_defs)

theorem C6_settings_resolution_witness:
  "SERVICE_NAME (settings_benchmark sample_env sample_file) = ''bookcatalog-nd-app''
   \<and> VUS (settings_benchmark sample_env sample_file) = Num 4
   \<and> DURATION (settings_benchmark sample_env sample_file) = ''10s''
   \<and> WARMUP_ITERATIONS (settings_benchmark sample_env sample_file) = Num 0
   \<and> DATABASE_TYPE (settings_benchmark sample_env sample_file) = ''postgres''
   \<and> env_line Map.empty (''DATABASE_TYPE'' @ ''='' @ [CHR 0x27] @ ''postgres'' @ [CHR 0x27])
       = [''DATABASE_TYPE'' \<mapsto> ''postgres'']
   \<and> loadEnvFile no_file ''.env'' = Map.empty"
proof -
  have e: "sample_env ''SERVICE_NAME'' = None" "sample_env ''VUS'' = Some ''4''"
    "sample_env ''DURATION'' = Some []" "sample_env ''WARMUP_ITERATIONS'' = None"
    "sample_env ''DATABASE_TYPE'' = None"
    by (simp_all add: sample_env_def)
  have p: "parseInt ''4'' = Num 4"
    by (simp add: parseInt_def is_space_def is_radix_digit_def digit_val_def digits_value_def)
  have q: "is_quote (CHR 0x27)" "\<not> is_space (CHR ''D'')" "\<not> is_space (CHR ''E'')"
    by (simp_all add: is_quote_def is_space_def)
  have n: "no_file ''.env'' = None" by (simp add: no_file_def)
  show ?thesis
    using
      C6_settings_resolution [of "loadEnvFile sample_file ''.env''" sample_file
        "settings_benchmark sample_env sample_file" sample_env
        "''VUS''" "''1''" "CHR 0x27" "CHR 0x27" "''DATABASE_TYPE''" Map.empty "''postgres''"]
      C6_settings_resolution [of "loadEnvFile no_file ''.env''" no_file
        "settings_benchmark no_env no_file" no_env
        "''VUS''" "''1''" "CHR 0x27" "CHR 0x27" "''DATABASE_TYPE''" Map.empty "''postgres''"]
    by (simp add: resolved_nonempty_def nonempty_value_def sample_file_keys e p q n)
qed

lemma setup_benchmark_NaN:
  "WARMUP_ITERATIONS cfg = NaN \<Longrightarrow>
   requests_of (new_events w (snd (setup_benchmark server cfg now w))) = []"
  by (rule setup_benchmark_no_warmup) simp

lemma setup_part_000_NaN:
  "WARMUP_ITERATIONS cfg = NaN \<Longrightarrow>
   requests_of (new_events w (setup_part_000 server cfg w)) = []"
  by (rule setup_part_000_no_warmup) simp

lemma non_numeric_examples: "non_numeric ''abc''" "non_numeric ''many''" "\<not> non_numeric ''12abc''"
  by (simp_all add: non_numeric_def is_space_def is_radix_digit_def digit_val_def)

lemma parseInt_prefix: "parseInt ''12abc'' = Num 12"
  by (simp add: parseInt_def is_space_def is_radix_digit_def digit_val_def digits_value_def)

text \<open>
  C7 as stated fails: with \<^verbatim>\<open>VUS=abc\<close> in the environment the resolution in both scripts
  completes, the setting is \<^verbatim>\<open>NaN\<close>, the scenario is built with it and benchmark.js logs it.
\<close>

theorem C7_counterexample:
  "VUS (settings_benchmark bad_vus_env no_file) = NaN
   \<and> vus (options_scenario (settings_benchmark bad_vus_env no_file)) = NaN
   \<and> hd (init_log (settings_benchmark bad_vus_env no_file)) =
       ''Configured with VUS=NaN, DURATION=30s, WARMUP_ITERATIONS=NaN, DATABASE_TYPE=sqlite''
   \<and> VUS (settings_part_000 bad_vus_env) = NaN"
proof -
  have e: "bad_vus_env ''VUS'' = Some ''abc''" "bad_vus_env ''WARMUP_ITERATIONS'' = Some ''many''"
    "bad_vus_env ''DURATION'' = None" "bad_vus_env ''DATABASE_TYPE'' = None"
    by (simp_all add: bad_vus_env_def)
  have p: "parseInt ''abc'' = NaN" "parseInt ''many'' = NaN"
    by (simp_all add: parseInt_non_numeric non_numeric_examples)
  have f: "loadEnvFile no_file ''.env'' = Map.empty"
    by (simp add: loadEnvFile_def no_file_def)
  show ?thesis
    by (simp add: settings_benchmark_def settings_part_000_def options_scenario_def init_log_def
        f e p js_or_def or_default_def Let_def)
qed

text \<open>
  C7 (amended). The scripts do not validate numeric settings. When the environment gives
  \<^verbatim>\<open>VUS\<close> a non-empty string that does not start with a decimal integer, the setting and the
  \<^verbatim>\<open>vus\<close> of the scenario are \<^verbatim>\<open>NaN\<close> in both scripts; when it gives such a string to
  \<^verbatim>\<open>WARMUP_ITERATIONS\<close>, that setting is \<^verbatim>\<open>NaN\<close> and \<^verbatim>\<open>setup\<close> issues no request.
\<close>

theorem C7_non_numeric_settings:
  fixes server :: "'s server" and w :: "'s world"
  assumes "non_numeric s" and "s \<noteq> []"
  shows "(env ''VUS'' = Some s \<longrightarrow>
            VUS (settings_benchmark env open_file) = NaN
            \<and> vus (options_scenario (settings_benchmark env open_file)) = NaN
            \<and> VUS (settings_part_000 env) = NaN
            \<and> vus (options_scenario (settings_part_000 env)) = NaN)
       \<and> (env ''WARMUP_ITERATIONS'' = Some s \<longrightarrow>
            WARMUP_ITERATIONS (settings_benchmark env open_file) = NaN
            \<and> WARMUP_ITERATIONS (settings_part_000 env) = NaN
            \<and> requests_of (new_events w
                 (snd (setup_benchmark server (settings_benchmark env open_file) now w))) = []
            \<and> requests_of (new_events w
                 (setup_part_000 server (settings_part_000 env) w)) = [])"
proof -
  note p = parseInt_non_numeric [OF assms(1)]
  have v: "VUS (settings_benchmark env open_file) = NaN \<and> VUS (settings_part_000 env) = NaN"
    if "env ''VUS'' = Some s"
    using that assms(2) p
    by (simp add: settings_benchmark_def settings_part_000_def js_or_def or_default_def Let_def)
  have i: "WARMUP_ITERATIONS (settings_benchmark env open_file) = NaN
      \<and> WARMUP_ITERATIONS (settings_part_000 env) = NaN"
    if "env ''WARMUP_ITERATIONS'' = Some s"
    using that assms(2) p
    by (simp add: settings_benchmark_def settings_part_000_def js_or_def or_default_def Let_def)
  show ?thesis
    using v i setup_benchmark_NaN [of "settings_benchmark env open_file" w server now]
      setup_part_000_NaN [of "settings_part_000 env" w server]
    by (auto simp: options_scenario_def)
qed

theorem C7_non_numeric_settings_witness:
  "VUS (settings_benchmark bad_vus_env no_file) = NaN
   \<and> vus (options_scenario (settings_part_000 bad_vus_env)) = NaN
   \<and> WARMUP_ITERATIONS (settings_benchmark bad_vus_env no_file) = NaN
   \<and> requests_of (new_events (0, [])
        (setup_part_000 scenario_server (settings_part_000 bad_vus_env) (0, []))) = []"
proof -
  have e: "bad_vus_env ''VUS'' = Some ''abc''" "bad_vus_env ''WARMUP_ITERATIONS'' = Some ''many''"
    by (simp_all add: bad_vus_env_def)
  show ?thesis
    using
      C7_non_numeric_settings [OF non_numeric_examples(1), of bad_vus_env no_file "(0, [])"
        scenario_server 0]
      C7_non_numeric_settings [OF non_numeric_examples(2), of bad_vus_env no_file "(0, [])"
        scenario_server 0]
    by (simp add: e)
qed


end
